theory Spec2Isabelle
  imports Main "HOL-Library.Word"
begin

section \<open>Runtime values and the library the services call\<close>

text \<open>
  A buffer is its sequence of bytes. The text the services make themselves (hexadecimal
  digits, identifiers, tokens, JSON) is kept as the bytes \<^verbatim>\<open>Buffer.from(s)\<close> and
  \<^verbatim>\<open>hmac.update(s)\<close> read from it. A string that reaches \<^verbatim>\<open>crypto.pbkdf2\<close>,
  \<^verbatim>\<open>cipher.update(s, 'utf-8')\<close> or \<^verbatim>\<open>Buffer.from(s, 'utf-8')\<close> from a caller (a password,
  a field to encrypt, a user id) is a JavaScript string: a sequence of 16-bit code units,
  which those calls encode as UTF-8, and which \<^verbatim>\<open>buf.toString('utf-8')\<close> decodes.
\<close>

type_synonym bytes = string

type_synonym jsstring = "16 word list"

datatype json =
    JNull
  | JBool bool
  | JNum int
  | JStr string
  | JArr "json list"
  | JObj "(string \<times> json) list"

text \<open>Thrown values: the JavaScript error class and its message.\<close>

datatype exn =
    Error string
  | TypeError string
  | RangeError string
  | SyntaxError string
  | TokenExpiredError string
  | JsonWebTokenError string

text \<open>
  The primitives of Node's \<^verbatim>\<open>crypto\<close>, \<^verbatim>\<open>JSON\<close>, \<^verbatim>\<open>Buffer\<close> and \<^verbatim>\<open>Date\<close> that
  the services call are parameters of the model. They are used as the functions they
  are (the same arguments give the same result); a theorem that needs more of a primitive
  than that (authenticated decryption inverts encryption, a digest has its length)
  says so in a hypothesis.
  \<^item> \<open>pbkdf2_sha512 key salt iterations keylen\<close> is the callback's
    \<^verbatim>\<open>(err, derivedKey)\<close> of PBKDF2 with HMAC-SHA512, as a function of the 128-byte
    key block HMAC makes of the password (see \<open>hmac_key\<close> below);
  \<^item> \<open>gcm_encrypt key iv plaintext\<close> is \<^verbatim>\<open>(ciphertext, authTag)\<close> of
    \<^verbatim>\<open>createCipheriv('aes-256-gcm', key, iv)\<close>;
  \<^item> \<open>gcm_decrypt key iv authTag ciphertext\<close> is the plaintext, or \<open>None\<close> when
    \<^verbatim>\<open>createDecipheriv\<close>, \<^verbatim>\<open>setAuthTag\<close>, \<^verbatim>\<open>update\<close> or \<^verbatim>\<open>final\<close> throws;
  \<^item> \<open>buffer_from_value v\<close> is \<^verbatim>\<open>Buffer.from(v, 'hex')\<close> for a parsed JSON value
    \<open>v\<close> that is not a string (\<open>None\<close> when it throws);
  \<^item> \<open>jws_signing_input alg payload\<close> is the text a JSON Web Signature signs:
    the encoded header and payload.
\<close>

record node_lib =
  sha256 :: "bytes \<Rightarrow> bytes"
  sha512 :: "bytes \<Rightarrow> bytes"
  hmac_sha256 :: "bytes \<Rightarrow> bytes \<Rightarrow> bytes"
  hmac_sha512 :: "bytes \<Rightarrow> bytes \<Rightarrow> bytes"
  pbkdf2_sha512 :: "bytes \<Rightarrow> bytes \<Rightarrow> int \<Rightarrow> nat \<Rightarrow> exn + bytes"
  gcm_encrypt :: "bytes \<Rightarrow> bytes \<Rightarrow> bytes \<Rightarrow> bytes \<times> bytes"
  gcm_decrypt :: "bytes \<Rightarrow> bytes \<Rightarrow> bytes \<Rightarrow> bytes \<Rightarrow> bytes option"
  json_stringify :: "json \<Rightarrow> string"
  json_parse :: "string \<Rightarrow> json option"
  base64url_encode :: "bytes \<Rightarrow> string"
  base64url_decode :: "string \<Rightarrow> bytes"
  buffer_from_value :: "json \<Rightarrow> bytes option"
  date_toISOString :: "int \<Rightarrow> string"
  jws_signing_input :: "string \<Rightarrow> json \<Rightarrow> bytes"

subsection \<open>Hexadecimal text\<close>

definition hex_digit :: "nat \<Rightarrow> char" where
  "hex_digit n = ''0123456789abcdef'' ! (n mod 16)"

definition hex_val :: "char \<Rightarrow> nat option" where
  "hex_val c =
     (let n = (of_char c :: nat) in
      if 48 \<le> n \<and> n \<le> 57 then Some (n - 48)
      else if 97 \<le> n \<and> n \<le> 102 then Some (n - 87)
      else if 65 \<le> n \<and> n \<le> 70 then Some (n - 55)
      else None)"

text \<open>\<^verbatim>\<open>buf.toString('hex')\<close>: two lower-case digits a byte.\<close>

fun toHex :: "bytes \<Rightarrow> string" where
  "toHex [] = []"
| "toHex (b # bs) =
     hex_digit (of_char b div 16) # hex_digit (of_char b mod 16) # toHex bs"

text \<open>
  \<^verbatim>\<open>Buffer.from(s, 'hex')\<close>: pairs of digits of either case, up to the first pair that
  is not hexadecimal; an odd last character is dropped.
\<close>

fun fromHex :: "string \<Rightarrow> bytes" where
  "fromHex (a # b # rest) =
     (case (hex_val a, hex_val b) of
        (Some x, Some y) \<Rightarrow> char_of (16 * x + y) # fromHex rest
      | _ \<Rightarrow> [])"
| "fromHex _ = []"

definition is_hex :: "char \<Rightarrow> bool" where
  "is_hex c = (c \<in> set ''0123456789abcdef'')"

subsection \<open>JavaScript strings and UTF-8\<close>

text \<open>
  The encoder of \<^verbatim>\<open>Buffer.from(s, 'utf-8')\<close>, \<^verbatim>\<open>cipher.update(s, 'utf-8')\<close> and of a
  string argument of \<^verbatim>\<open>crypto.pbkdf2\<close>: a surrogate pair is one code point of four
  bytes, and a surrogate without its partner is written as U+FFFD (\<^verbatim>\<open>EF BF BD\<close>).
\<close>

definition byte :: "nat \<Rightarrow> char" where
  "byte n = char_of n"

definition is_high :: "nat \<Rightarrow> bool" where
  "is_high n = (55296 \<le> n \<and> n \<le> 56319)"

definition is_low :: "nat \<Rightarrow> bool" where
  "is_low n = (56320 \<le> n \<and> n \<le> 57343)"

definition utf8_1 :: "nat \<Rightarrow> bytes" where
  "utf8_1 n = [byte n]"

definition utf8_2 :: "nat \<Rightarrow> bytes" where
  "utf8_2 n = [byte (192 + n div 64), byte (128 + n mod 64)]"

definition utf8_3 :: "nat \<Rightarrow> bytes" where
  "utf8_3 n = [byte (224 + n div 4096), byte (128 + n div 64 mod 64), byte (128 + n mod 64)]"

definition utf8_4 :: "nat \<Rightarrow> bytes" where
  "utf8_4 n =
     [byte (240 + n div 262144), byte (128 + n div 4096 mod 64),
      byte (128 + n div 64 mod 64), byte (128 + n mod 64)]"

definition pair_code_point :: "nat \<Rightarrow> nat \<Rightarrow> nat" where
  "pair_code_point hi lo = 65536 + (hi - 55296) * 1024 + (lo - 56320)"

fun utf8_encode :: "jsstring \<Rightarrow> bytes" where
  "utf8_encode [] = []"
| "utf8_encode (u # us) =
     (let n = unat u in
      if n < 128 then utf8_1 n @ utf8_encode us
      else if n < 2048 then utf8_2 n @ utf8_encode us
      else if is_high n then
        (case us of
           v # rest \<Rightarrow>
             if is_low (unat v) then utf8_4 (pair_code_point n (unat v)) @ utf8_encode rest
             else utf8_3 65533 @ utf8_encode us
         | [] \<Rightarrow> utf8_3 65533)
      else if is_low n then utf8_3 65533 @ utf8_encode us
      else utf8_3 n @ utf8_encode us)"

text \<open>
  The decoder of \<^verbatim>\<open>buf.toString('utf-8')\<close>: a well-formed sequence gives its code point
  (two code units above U+FFFF), and every maximal ill-formed part gives U+FFFD. Overlong
  forms, encoded surrogates and code points above U+10FFFF are ill-formed, which the
  bounds of the first continuation byte express. A byte order mark is kept.
\<close>

definition code_units :: "nat \<Rightarrow> jsstring" where
  "code_units c =
     (if c < 65536 then [of_nat c]
      else [of_nat (55296 + (c - 65536) div 1024), of_nat (56320 + (c - 65536) mod 1024)])"

definition continuation :: "nat \<Rightarrow> nat \<Rightarrow> char \<Rightarrow> bool" where
  "continuation lower upper c = (lower \<le> (of_char c :: nat) \<and> (of_char c :: nat) \<le> upper)"

definition low6 :: "char \<Rightarrow> nat" where
  "low6 c = (of_char c :: nat) mod 64"

fun utf8_decode :: "bytes \<Rightarrow> jsstring" where
  "utf8_decode [] = []"
| "utf8_decode (b # bs) =
     (let n = (of_char b :: nat) in
      if n < 128 then code_units n @ utf8_decode bs
      else if 194 \<le> n \<and> n \<le> 223 then
        (case bs of
           c1 # r1 \<Rightarrow>
             if continuation 128 191 c1
             then code_units ((n - 192) * 64 + low6 c1) @ utf8_decode r1
             else code_units 65533 @ utf8_decode bs
         | [] \<Rightarrow> code_units 65533)
      else if 224 \<le> n \<and> n \<le> 239 then
        (case bs of
           c1 # r1 \<Rightarrow>
             if continuation (if n = 224 then 160 else 128) (if n = 237 then 159 else 191) c1
             then
               (case r1 of
                  c2 # r2 \<Rightarrow>
                    if continuation 128 191 c2
                    then code_units ((n - 224) * 4096 + low6 c1 * 64 + low6 c2) @ utf8_decode r2
                    else code_units 65533 @ utf8_decode r1
                | [] \<Rightarrow> code_units 65533)
             else code_units 65533 @ utf8_decode bs
         | [] \<Rightarrow> code_units 65533)
      else if 240 \<le> n \<and> n \<le> 244 then
        (case bs of
           c1 # r1 \<Rightarrow>
             if continuation (if n = 240 then 144 else 128) (if n = 244 then 143 else 191) c1
             then
               (case r1 of
                  c2 # r2 \<Rightarrow>
                    if continuation 128 191 c2
                    then
                      (case r2 of
                         c3 # r3 \<Rightarrow>
                           if continuation 128 191 c3
                           then code_units ((n - 240) * 262144 + low6 c1 * 4096 + low6 c2 * 64
                                              + low6 c3) @ utf8_decode r3
                           else code_units 65533 @ utf8_decode r2
                       | [] \<Rightarrow> code_units 65533)
                    else code_units 65533 @ utf8_decode r1
                | [] \<Rightarrow> code_units 65533)
             else code_units 65533 @ utf8_decode bs
         | [] \<Rightarrow> code_units 65533)
      else code_units 65533 @ utf8_decode bs)"

text \<open>A string in which every surrogate is half of a pair: well-formed UTF-16.\<close>

fun well_formed :: "jsstring \<Rightarrow> bool" where
  "well_formed [] = True"
| "well_formed (u # us) =
     (if is_high (unat u) then
        (case us of v # rest \<Rightarrow> is_low (unat v) \<and> well_formed rest | [] \<Rightarrow> False)
      else \<not> is_low (unat u) \<and> well_formed us)"

subsection \<open>Randomness, comparison, truthiness, split\<close>

text \<open>The random source is the stream of bytes it will give; a call takes its prefix.\<close>

type_synonym rng = "nat \<Rightarrow> char"

definition randomBytes :: "nat \<Rightarrow> rng \<Rightarrow> bytes \<times> rng" where
  "randomBytes n r = (map r [0..<n], (\<lambda>i. r (i + n)))"

text \<open>\<^verbatim>\<open>crypto.timingSafeEqual\<close> throws on buffers of different lengths.\<close>

definition timingSafeEqual :: "bytes \<Rightarrow> bytes \<Rightarrow> exn + bool" where
  "timingSafeEqual a b =
     (if length a \<noteq> length b
      then Inl (RangeError ''Input buffers must have the same byte length'')
      else Inr (a = b))"

text \<open>\<^verbatim>\<open>!s\<close> for a value that is a string or \<^verbatim>\<open>undefined\<close>.\<close>

fun falsy :: "'a list option \<Rightarrow> bool" where
  "falsy None = True"
| "falsy (Some s) = (s = [])"

text \<open>\<^verbatim>\<open>s.split(c)\<close> on a one-character separator.\<close>

fun split_on :: "char \<Rightarrow> string \<Rightarrow> string list" where
  "split_on c [] = [[]]"
| "split_on c (x # xs) =
     (if x = c then [] # split_on c xs
      else (case split_on c xs of
              [] \<Rightarrow> [[x]]
            | y # ys \<Rightarrow> (x # y) # ys))"

text \<open>An array element, \<^verbatim>\<open>undefined\<close> past the end.\<close>

fun nth_opt :: "'a list \<Rightarrow> nat \<Rightarrow> 'a option" where
  "nth_opt [] n = None"
| "nth_opt (x # xs) 0 = Some x"
| "nth_opt (x # xs) (Suc n) = nth_opt xs n"

section \<open>AuthService: passwords\<close>

text \<open>
  The environment the service reads at construction. The expiry settings are kept as the
  seconds their time-span text stands for: 900 for the default \<^verbatim>\<open>'15m'\<close>, 604800 for
  \<^verbatim>\<open>'7d'\<close>.
\<close>

record auth_config =
  PBKDF2_ITERATIONS :: int
  JWT_ACCESS_SECRET :: string
  JWT_REFRESH_SECRET :: string
  JWT_ACCESS_EXPIRY :: int
  JWT_REFRESH_EXPIRY :: int

text \<open>
  \<^verbatim>\<open>crypto.pbkdf2(password, salt, iterations, keylen, 'sha512', callback)\<close> with a string
  password. The string is encoded as UTF-8, and PBKDF2 reads the result only as the key of
  HMAC-SHA512, which reads a key only through the block it makes of it: a key longer than
  the 128-byte block of SHA-512 is hashed first, and the key is then filled with zero
  bytes up to 128.
\<close>

definition hmac_key :: "node_lib \<Rightarrow> bytes \<Rightarrow> bytes" where
  "hmac_key L key =
     (let k = (if length key > 128 then sha512 L key else key)
      in k @ replicate (128 - length k) (char_of (0::nat)))"

definition crypto_pbkdf2 :: "node_lib \<Rightarrow> jsstring \<Rightarrow> bytes \<Rightarrow> int \<Rightarrow> nat \<Rightarrow> exn + bytes" where
  "crypto_pbkdf2 L password salt iterations keylen =
     pbkdf2_sha512 L (hmac_key L (utf8_encode password)) salt iterations keylen"

text \<open>
  \<^verbatim>\<open>SALT_LENGTH\<close> is 16 and \<^verbatim>\<open>HASH_LENGTH\<close> 64. An \<open>Inl\<close> result is the rejected
  promise.
\<close>

definition hashPassword :: "node_lib \<Rightarrow> auth_config \<Rightarrow> rng \<Rightarrow> jsstring \<Rightarrow> (exn + string) \<times> rng" where
  "hashPassword L cfg r password =
     (let (salt, r') = randomBytes 16 r in
      (case crypto_pbkdf2 L password salt (PBKDF2_ITERATIONS cfg) 64 of
         Inl err \<Rightarrow> (Inl err, r')
       | Inr derivedKey \<Rightarrow>
           (let hash = toHex derivedKey; saltHex = toHex salt
            in (Inr (saltHex @ '':'' @ hash), r'))))"

definition verifyPassword :: "node_lib \<Rightarrow> auth_config \<Rightarrow> jsstring \<Rightarrow> string \<Rightarrow> exn + bool" where
  "verifyPassword L cfg password storedHash =
     (let parts = split_on (CHR '':'') storedHash;
          saltHex = nth_opt parts 0;
          hashHex = nth_opt parts 1
      in if falsy saltHex \<or> falsy hashHex then Inr False
         else
           (let salt = fromHex (the saltHex) in
            case crypto_pbkdf2 L password salt (PBKDF2_ITERATIONS cfg) 64 of
              Inl err \<Rightarrow> Inl err
            | Inr derivedKey \<Rightarrow>
                (let hash = toHex derivedKey;
                     storedHashBuffer = fromHex (the hashHex);
                     computedHashBuffer = fromHex hash
                 in case timingSafeEqual storedHashBuffer computedHashBuffer of
                      Inr isValid \<Rightarrow> Inr isValid
                    | Inl _ \<Rightarrow> Inr False)))"

section \<open>AadhaarService\<close>

definition is_digit :: "char \<Rightarrow> bool" where
  "is_digit c = (48 \<le> (of_char c :: nat) \<and> (of_char c :: nat) \<le> 57)"

text \<open>The regular expression \<^verbatim>\<open>/^\d{12}$/\<close>.\<close>

definition validateAadhaarFormat :: "string \<Rightarrow> bool" where
  "validateAadhaarFormat aadhaar = (length aadhaar = 12 \<and> list_all is_digit aadhaar)"

definition tokenizeAadhaar :: "node_lib \<Rightarrow> bytes \<Rightarrow> string \<Rightarrow> exn + string" where
  "tokenizeAadhaar L masterKey aadhaar =
     (if \<not> validateAadhaarFormat aadhaar
      then Inl (Error ''Invalid Aadhaar format. Must be exactly 12 digits.'')
      else Inr (take 32 (toHex (hmac_sha256 L masterKey aadhaar))))"

definition hashAadhaar :: "node_lib \<Rightarrow> bytes \<Rightarrow> string \<Rightarrow> exn + string" where
  "hashAadhaar L masterKey aadhaar =
     (case tokenizeAadhaar L masterKey aadhaar of
        Inl e \<Rightarrow> Inl e
      | Inr token \<Rightarrow> Inr (toHex (sha256 L token)))"

definition verifyAadhaarHash :: "node_lib \<Rightarrow> bytes \<Rightarrow> string \<Rightarrow> string \<Rightarrow> exn + bool" where
  "verifyAadhaarHash L masterKey aadhaar storedHash =
     (case hashAadhaar L masterKey aadhaar of
        Inl e \<Rightarrow> Inl e
      | Inr computedHash \<Rightarrow> timingSafeEqual computedHash storedHash)"

section \<open>JSON Web Tokens as the services use them\<close>

text \<open>
  The services sign and verify with the \<^verbatim>\<open>jsonwebtoken\<close> package, which is not part of
  the repository: \<open>jwt_sign\<close> and \<open>jwt_verify\<close> follow the package's \<^verbatim>\<open>sign\<close> and
  \<^verbatim>\<open>verify\<close> for the options the services pass and for payloads that carry none of the
  registered claims \<^verbatim>\<open>iat\<close>, \<^verbatim>\<open>exp\<close>, \<^verbatim>\<open>aud\<close>, \<^verbatim>\<open>iss\<close> themselves, which are the
  payloads the services sign. A token is taken as a verifier decodes it: text that has not
  the three parts of a signed token, or the header algorithm, the payload object and the
  signature; the signature is the HMAC of the signing input. Only \<^verbatim>\<open>HS256\<close> is signed or
  accepted by the services, and no other algorithm is modelled.
\<close>

datatype jwt_token =
    NotAJwt string
  | Jws string "(string \<times> json) list" bytes

record sign_options =
  expiresIn :: "int option"
  audience :: "string option"
  issuer :: "string option"
  algorithm :: "string option"

record verify_options =
  v_issuer :: "string option"
  v_audience :: "string option"
  algorithms :: "string list"

text \<open>
  \<^verbatim>\<open>jwt.sign(payload, secret, options)\<close> at the clock \<open>now\<close> (milliseconds): \<^verbatim>\<open>iat\<close> is
  set, \<^verbatim>\<open>exp\<close> is \<^verbatim>\<open>iat\<close> plus \<^verbatim>\<open>expiresIn\<close>, and \<^verbatim>\<open>aud\<close> and \<^verbatim>\<open>iss\<close> are set only from
  the options \<^verbatim>\<open>audience\<close> and \<^verbatim>\<open>issuer\<close>.
\<close>

definition jwt_sign ::
  "node_lib \<Rightarrow> (string \<times> json) list \<Rightarrow> string \<Rightarrow> sign_options \<Rightarrow> int \<Rightarrow> exn + jwt_token" where
  "jwt_sign L payload secret opts now =
     (if secret = [] then Inl (Error ''secretOrPrivateKey must have a value'')
      else
        (let alg = (case algorithm opts of None \<Rightarrow> ''HS256'' | Some a \<Rightarrow> a);
             timestamp = now div 1000;
             p1 = payload @ [(''iat'', JNum timestamp)];
             p2 = (case expiresIn opts of
                     None \<Rightarrow> p1
                   | Some s \<Rightarrow> p1 @ [(''exp'', JNum (timestamp + s))]);
             p3 = (case audience opts of None \<Rightarrow> p2 | Some a \<Rightarrow> p2 @ [(''aud'', JStr a)]);
             p4 = (case issuer opts of None \<Rightarrow> p3 | Some i \<Rightarrow> p3 @ [(''iss'', JStr i)])
         in if alg \<noteq> ''HS256'' then Inl (Error ''algorithm not modelled'')
            else Inr (Jws alg p4 (hmac_sha256 L secret (jws_signing_input L alg (JObj p4))))))"

text \<open>
  \<^verbatim>\<open>jwt.verify(token, secret, options)\<close>: algorithm, signature, expiry, audience and
  issuer are checked in this order; an expired token fails with \<open>TokenExpiredError\<close>,
  every other failure with \<open>JsonWebTokenError\<close>.
\<close>

definition audience_matches :: "string \<Rightarrow> json option \<Rightarrow> bool" where
  "audience_matches a aud =
     (case aud of
        Some (JArr targets) \<Rightarrow> JStr a \<in> set targets
      | Some v \<Rightarrow> v = JStr a
      | None \<Rightarrow> False)"

definition jwt_verify ::
  "node_lib \<Rightarrow> jwt_token \<Rightarrow> string \<Rightarrow> verify_options \<Rightarrow> int \<Rightarrow> exn + (string \<times> json) list" where
  "jwt_verify L token secret opts now =
     (case token of
        NotAJwt _ \<Rightarrow> Inl (JsonWebTokenError ''jwt malformed'')
      | Jws alg payload sig \<Rightarrow>
          if sig = [] then Inl (JsonWebTokenError ''jwt signature is required'')
          else if secret = [] then Inl (JsonWebTokenError ''secret or public key must be provided'')
          else if alg \<notin> set (algorithms opts) \<or> alg \<noteq> ''HS256''
            then Inl (JsonWebTokenError ''invalid algorithm'')
          else if sig \<noteq> hmac_sha256 L secret (jws_signing_input L alg (JObj payload))
            then Inl (JsonWebTokenError ''invalid signature'')
          else if (case map_of payload ''exp'' of
                     None \<Rightarrow> False | Some (JNum e) \<Rightarrow> False | Some _ \<Rightarrow> True)
            then Inl (JsonWebTokenError ''invalid exp value'')
          else if (case map_of payload ''exp'' of
                     Some (JNum e) \<Rightarrow> now div 1000 \<ge> e | _ \<Rightarrow> False)
            then Inl (TokenExpiredError ''jwt expired'')
          else if (case v_audience opts of
                     None \<Rightarrow> False
                   | Some a \<Rightarrow> \<not> audience_matches a (map_of payload ''aud''))
            then Inl (JsonWebTokenError ''jwt audience invalid'')
          else if (case v_issuer opts of
                     None \<Rightarrow> False
                   | Some i \<Rightarrow> map_of payload ''iss'' \<noteq> Some (JStr i))
            then Inl (JsonWebTokenError ''jwt issuer invalid'')
          else Inr payload)"

section \<open>AuthService: session tokens\<close>

record access_payload =
  userId :: string
  email :: string
  role :: string

definition generateAccessToken ::
  "node_lib \<Rightarrow> auth_config \<Rightarrow> int \<Rightarrow> access_payload \<Rightarrow> exn + jwt_token" where
  "generateAccessToken L cfg now payload =
     jwt_sign L
       [(''userId'', JStr (userId payload)),
        (''email'', JStr (email payload)),
        (''role'', JStr (role payload))]
       (JWT_ACCESS_SECRET cfg)
       \<lparr>expiresIn = Some (JWT_ACCESS_EXPIRY cfg), audience = None, issuer = None,
        algorithm = None\<rparr>
       now"

text \<open>The result object \<^verbatim>\<open>{userId, email, role}\<close>: a field the token lacks is \<^verbatim>\<open>undefined\<close>.\<close>

definition verifyAccessToken ::
  "node_lib \<Rightarrow> auth_config \<Rightarrow> int \<Rightarrow> jwt_token \<Rightarrow>
     exn + (json option \<times> json option \<times> json option)" where
  "verifyAccessToken L cfg now token =
     (case jwt_verify L token (JWT_ACCESS_SECRET cfg)
             \<lparr>v_issuer = Some ''pharmalync'', v_audience = Some ''pharmalync-api'',
              algorithms = [''HS256'']\<rparr> now of
        Inr decoded \<Rightarrow>
          Inr (map_of decoded ''userId'', map_of decoded ''email'', map_of decoded ''role'')
      | Inl (TokenExpiredError _) \<Rightarrow> Inl (Error ''Token expired'')
      | Inl (JsonWebTokenError _) \<Rightarrow> Inl (Error ''Invalid token'')
      | Inl error \<Rightarrow> Inl error)"

section \<open>KeyManagementService and EncryptionService\<close>

text \<open>
  \<open>masterKey\<close> is \<^verbatim>\<open>getMasterKey()\<close>, the 32 bytes the constructor decoded from
  \<^verbatim>\<open>ENCRYPTION_KEY\<close>. \<^verbatim>\<open>deriveUserKey\<close> is called with its default \<^verbatim>\<open>info\<close>.
\<close>

definition deriveUserKey :: "node_lib \<Rightarrow> bytes \<Rightarrow> jsstring \<Rightarrow> bytes" where
  "deriveUserKey L masterKey uid =
     (let salt = utf8_encode uid;
          infoBuffer = ''pharmalync-user-key'';
          prk = hmac_sha256 L salt masterKey;
          okm = hmac_sha256 L prk (infoBuffer @ [char_of (1::nat)])
      in okm)"

text \<open>
  The optional \<^verbatim>\<open>userId\<close>: absent and empty both select the master key. The cipher
  is given the UTF-8 encoding of \<^verbatim>\<open>data\<close>, and the decrypted bytes are decoded as UTF-8.
\<close>

definition encryptPII ::
  "node_lib \<Rightarrow> bytes \<Rightarrow> rng \<Rightarrow> jsstring \<Rightarrow> jsstring option \<Rightarrow> (exn + bytes) \<times> rng" where
  "encryptPII L masterKey r data uid =
     (if data = [] then (Inl (Error ''Data to encrypt cannot be empty''), r)
      else
        (let key = (if \<not> falsy uid then deriveUserKey L masterKey (the uid) else masterKey);
             (iv, r') = randomBytes 16 r;
             (encrypted, authTag) = gcm_encrypt L key iv (utf8_encode data)
         in (Inr (iv @ authTag @ encrypted), r')))"

definition decryptPII ::
  "node_lib \<Rightarrow> bytes \<Rightarrow> bytes \<Rightarrow> jsstring option \<Rightarrow> exn + jsstring" where
  "decryptPII L masterKey encryptedBuffer uid =
     (if length encryptedBuffer < 32 then Inl (Error ''Invalid encrypted buffer'')
      else
        (let key = (if \<not> falsy uid then deriveUserKey L masterKey (the uid) else masterKey);
             iv = take 16 encryptedBuffer;
             authTag = take 16 (drop 16 encryptedBuffer);
             ciphertext = drop 32 encryptedBuffer
         in case gcm_decrypt L key iv authTag ciphertext of
              Some decrypted \<Rightarrow> Inr (utf8_decode decrypted)
            | None \<Rightarrow>
                Inl (Error ''Decryption failed. Data may be corrupted or tampered with.'')))"

section \<open>ConsentService\<close>

datatype ConsentScope = VIEW_MEDICAL_RECORDS | VIEW_AADHAAR | UPDATE_RECORDS

fun scope_name :: "ConsentScope \<Rightarrow> string" where
  "scope_name VIEW_MEDICAL_RECORDS = ''VIEW_MEDICAL_RECORDS''"
| "scope_name VIEW_AADHAAR = ''VIEW_AADHAAR''"
| "scope_name UPDATE_RECORDS = ''UPDATE_RECORDS''"

text \<open>A row of the \<^verbatim>\<open>consent\<close> table; times are milliseconds.\<close>

record consent =
  c_id :: string
  c_patientId :: string
  c_grantedTo :: string
  c_scopes :: "ConsentScope list"
  c_expiresAt :: int
  c_revoked :: bool

type_synonym consent_table = "string \<rightharpoonup> consent"

text \<open>
  The result object of \<^verbatim>\<open>verifyConsentToken\<close>: \<^verbatim>\<open>{valid: false, error}\<close> or
  \<^verbatim>\<open>{valid: true, consentId, patientId, grantedTo, scopes}\<close>.
\<close>

datatype consent_result =
    ConsentInvalid string
  | ConsentValid string string string "ConsentScope list"

text \<open>
  \<open>newId\<close> is the id the database gives the created row. The row is created before the
  token is signed.
\<close>

definition generateConsentToken ::
  "node_lib \<Rightarrow> string \<Rightarrow> consent_table \<Rightarrow> string \<Rightarrow> int \<Rightarrow> string \<Rightarrow> string \<Rightarrow>
     ConsentScope list \<Rightarrow> int \<Rightarrow> (exn + jwt_token \<times> string) \<times> consent_table" where
  "generateConsentToken L CONSENT_TOKEN_SECRET db newId now patientId grantedTo scopes expiryMinutes =
     (let expiresAt = now + expiryMinutes * 60 * 1000;
          row = \<lparr>c_id = newId, c_patientId = patientId, c_grantedTo = grantedTo,
                 c_scopes = scopes, c_expiresAt = expiresAt, c_revoked = False\<rparr>;
          db' = db(newId \<mapsto> row)
      in case jwt_sign L
                [(''consentId'', JStr (c_id row)),
                 (''patientId'', JStr patientId),
                 (''grantedTo'', JStr grantedTo),
                 (''scopes'', JArr (map (\<lambda>s. JStr (scope_name s)) scopes)),
                 (''expiresAt'', JStr (date_toISOString L expiresAt))]
                CONSENT_TOKEN_SECRET
                \<lparr>expiresIn = Some (expiryMinutes * 60), audience = Some ''pharmalync-consent'',
                 issuer = Some ''pharmalync'', algorithm = Some ''HS256''\<rparr>
                now of
           Inl e \<Rightarrow> (Inl e, db')
         | Inr token \<Rightarrow> (Inr (token, c_id row), db'))"

definition verifyConsentToken ::
  "node_lib \<Rightarrow> string \<Rightarrow> consent_table \<Rightarrow> int \<Rightarrow> jwt_token \<Rightarrow> ConsentScope list \<Rightarrow>
     consent_result" where
  "verifyConsentToken L CONSENT_TOKEN_SECRET db now token requiredScopes =
     (case jwt_verify L token CONSENT_TOKEN_SECRET
             \<lparr>v_issuer = Some ''pharmalync'', v_audience = Some ''pharmalync-consent'',
              algorithms = [''HS256'']\<rparr> now of
        Inl (TokenExpiredError _) \<Rightarrow> ConsentInvalid ''Consent token expired''
      | Inl (JsonWebTokenError _) \<Rightarrow> ConsentInvalid ''Invalid consent token''
      | Inl _ \<Rightarrow> ConsentInvalid ''Consent verification failed''
      | Inr decoded \<Rightarrow>
          (case map_of decoded ''consentId'' of
             Some (JStr cid) \<Rightarrow>
               (case db cid of
                  None \<Rightarrow> ConsentInvalid ''Consent not found''
                | Some row \<Rightarrow>
                    if c_revoked row then ConsentInvalid ''Consent has been revoked''
                    else if now > c_expiresAt row then ConsentInvalid ''Consent has expired''
                    else if \<not> list_all (\<lambda>scope. scope \<in> set (c_scopes row)) requiredScopes
                      then ConsentInvalid ''Insufficient consent scopes''
                    else ConsentValid (c_id row) (c_patientId row) (c_grantedTo row)
                           (c_scopes row))
           | _ \<Rightarrow> ConsentInvalid ''Consent verification failed''))"

text \<open>The update of a row that does not exist is rejected by the database.\<close>

definition revokeConsent :: "consent_table \<Rightarrow> string \<Rightarrow> exn + consent_table" where
  "revokeConsent db consentId =
     (case db consentId of
        None \<Rightarrow> Inl (Error ''Record to update not found.'')
      | Some row \<Rightarrow> Inr (db(consentId \<mapsto> row\<lparr>c_revoked := True\<rparr>)))"

section \<open>QrSecurityService\<close>

text \<open>
  An object literal \<^verbatim>\<open>{...data, k: v}\<close>: the property \<open>k\<close> of \<open>data\<close> is overwritten in
  place, a new one is added at the end.
\<close>

fun set_prop :: "string \<Rightarrow> json \<Rightarrow> (string \<times> json) list \<Rightarrow> (string \<times> json) list" where
  "set_prop k v [] = [(k, v)]"
| "set_prop k v ((k', v') # ps) =
     (if k' = k then (k, v) # ps else (k', v') # set_prop k v ps)"

text \<open>A property of a parsed value that is not \<^verbatim>\<open>null\<close>; only objects have the four read.\<close>

fun get_prop :: "json \<Rightarrow> string \<Rightarrow> json option" where
  "get_prop (JObj ps) k = map_of ps k"
| "get_prop _ k = None"

text \<open>\<^verbatim>\<open>Buffer.from(v, 'hex')\<close> on a property that may be \<^verbatim>\<open>undefined\<close>.\<close>

definition Buffer_from_hex :: "node_lib \<Rightarrow> json option \<Rightarrow> exn + bytes" where
  "Buffer_from_hex L v =
     (case v of
        Some (JStr s) \<Rightarrow> Inr (fromHex s)
      | Some j \<Rightarrow>
          (case buffer_from_value L j of
             Some b \<Rightarrow> Inr b
           | None \<Rightarrow> Inl (TypeError ''The first argument must be of type string or an instance of Buffer''))
      | None \<Rightarrow> Inl (TypeError ''The first argument must be of type string or an instance of Buffer''))"

text \<open>\<open>now\<close> is \<^verbatim>\<open>Date.now()\<close>; the nonce is drawn before the IV.\<close>

definition generateSecureToken ::
  "node_lib \<Rightarrow> bytes \<Rightarrow> rng \<Rightarrow> int \<Rightarrow> (string \<times> json) list \<Rightarrow> string \<Rightarrow> string \<times> rng" where
  "generateSecureToken L masterKey r now data resourceType =
     (let tokenKey = hmac_sha256 L masterKey (''QR_TOKEN_'' @ resourceType);
          signKey = hmac_sha256 L masterKey (''QR_SIGN_'' @ resourceType);
          (nonceBytes, r1) = randomBytes 16 r;
          payload = json_stringify L
            (JObj (set_prop ''timestamp'' (JNum now)
                     (set_prop ''nonce'' (JStr (toHex nonceBytes)) data)));
          (iv, r2) = randomBytes 12 r1;
          (cipherBytes, tag) = gcm_encrypt L tokenKey iv payload;
          encrypted = toHex cipherBytes;
          signature = toHex (hmac_sha512 L signKey (iv @ tag @ encrypted));
          packageData = JObj [(''iv'', JStr (toHex iv)), (''tag'', JStr (toHex tag)),
                              (''encrypted'', JStr encrypted), (''signature'', JStr signature)]
      in (base64url_encode L (json_stringify L packageData), r2))"

text \<open>
  Two values inside \<open>generateSecureToken\<close>, named for the statements about it: the object
  that is encrypted, and the package object that is serialised.
\<close>

definition qr_payload :: "rng \<Rightarrow> int \<Rightarrow> (string \<times> json) list \<Rightarrow> json" where
  "qr_payload r now data =
     JObj (set_prop ''timestamp'' (JNum now)
             (set_prop ''nonce'' (JStr (toHex (fst (randomBytes 16 r)))) data))"

definition qr_package ::
  "node_lib \<Rightarrow> bytes \<Rightarrow> rng \<Rightarrow> int \<Rightarrow> (string \<times> json) list \<Rightarrow> string \<Rightarrow> json" where
  "qr_package L masterKey r now data resourceType =
     (let tokenKey = hmac_sha256 L masterKey (''QR_TOKEN_'' @ resourceType);
          signKey = hmac_sha256 L masterKey (''QR_SIGN_'' @ resourceType);
          iv = fst (randomBytes 12 (snd (randomBytes 16 r)));
          sealed = gcm_encrypt L tokenKey iv (json_stringify L (qr_payload r now data));
          encrypted = toHex (fst sealed);
          tag = snd sealed
      in JObj [(''iv'', JStr (toHex iv)), (''tag'', JStr (toHex tag)),
               (''encrypted'', JStr encrypted),
               (''signature'', JStr (toHex (hmac_sha512 L signKey (iv @ tag @ encrypted))))])"

text \<open>The body of the \<^verbatim>\<open>try\<close> block: the value returned or the error thrown inside it.\<close>

definition verifyToken_try :: "node_lib \<Rightarrow> bytes \<Rightarrow> string \<Rightarrow> string \<Rightarrow> exn + json" where
  "verifyToken_try L masterKey token resourceType =
     (let tokenKey = hmac_sha256 L masterKey (''QR_TOKEN_'' @ resourceType);
          signKey = hmac_sha256 L masterKey (''QR_SIGN_'' @ resourceType);
          jsonStr = base64url_decode L token
      in case json_parse L jsonStr of
           None \<Rightarrow> Inl (SyntaxError ''Unexpected token in JSON'')
         | Some JNull \<Rightarrow> Inl (TypeError ''Cannot destructure property of null'')
         | Some parsed \<Rightarrow>
             (case Buffer_from_hex L (get_prop parsed ''iv'') of
                Inl e \<Rightarrow> Inl e
              | Inr ivBuffer \<Rightarrow>
             (case Buffer_from_hex L (get_prop parsed ''tag'') of
                Inl e \<Rightarrow> Inl e
              | Inr tagBuffer \<Rightarrow>
             (case get_prop parsed ''encrypted'' of
                Some (JStr encrypted) \<Rightarrow>
                  (let expectedSignature =
                         toHex (hmac_sha512 L signKey (ivBuffer @ tagBuffer @ encrypted))
                   in case Buffer_from_hex L (get_prop parsed ''signature'') of
                        Inl e \<Rightarrow> Inl e
                      | Inr signatureBuffer \<Rightarrow>
                     (case timingSafeEqual signatureBuffer (fromHex expectedSignature) of
                        Inl e \<Rightarrow> Inl e
                      | Inr False \<Rightarrow>
                          Inl (Error ''SECURITY_ALERT: QR Token signature is invalid or tampered'')
                      | Inr True \<Rightarrow>
                          (case gcm_decrypt L tokenKey ivBuffer tagBuffer (fromHex encrypted) of
                             None \<Rightarrow> Inl (Error ''Unsupported state or unable to authenticate data'')
                           | Some decrypted \<Rightarrow>
                               (case json_parse L decrypted of
                                  None \<Rightarrow> Inl (SyntaxError ''Unexpected token in JSON'')
                                | Some data \<Rightarrow> Inr data))))
              | _ \<Rightarrow> Inl (TypeError ''The data argument must be of type string or an instance of Buffer'')))))"

text \<open>The message of a thrown value, as \<^verbatim>\<open>console.error\<close> prints it.\<close>

fun message :: "exn \<Rightarrow> string" where
  "message (Error m) = m"
| "message (TypeError m) = m"
| "message (RangeError m) = m"
| "message (SyntaxError m) = m"
| "message (TokenExpiredError m) = m"
| "message (JsonWebTokenError m) = m"

text \<open>A thrown value inside a template literal: class name, colon, message.\<close>

fun exn_toString :: "exn \<Rightarrow> string" where
  "exn_toString (Error m) = ''Error: '' @ m"
| "exn_toString (TypeError m) = ''TypeError: '' @ m"
| "exn_toString (RangeError m) = ''RangeError: '' @ m"
| "exn_toString (SyntaxError m) = ''SyntaxError: '' @ m"
| "exn_toString (TokenExpiredError m) = ''TokenExpiredError: '' @ m"
| "exn_toString (JsonWebTokenError m) = ''JsonWebTokenError: '' @ m"

text \<open>
  The whole call: what it returns or throws, and the lines it writes to the console. The
  \<^verbatim>\<open>catch\<close> clause encloses every statement of the function.
\<close>

definition verifyToken :: "node_lib \<Rightarrow> bytes \<Rightarrow> string \<Rightarrow> string \<Rightarrow> (exn + json) \<times> string list" where
  "verifyToken L masterKey token resourceType =
     (case verifyToken_try L masterKey token resourceType of
        Inr data \<Rightarrow> (Inr data, [])
      | Inl error \<Rightarrow>
          (Inl (Error ''INVALID_QR: Unable to verify authenticity of the scanned code''),
           [''QR Verification Failed: '' @ message error]))"

section \<open>BlockchainService and AuditService\<close>

text \<open>
  The audit contract when the service was configured: what each call of it resolves to
  (\<open>Inr\<close>) or rejects with (\<open>Inl\<close>). \<^verbatim>\<open>verifyAudit\<close> resolves to the tuple
  \<^verbatim>\<open>(action, dataHash, timestamp)\<close>, \<^verbatim>\<open>logAudit\<close> to the transaction hash.
\<close>

record audit_contract =
  contract_verifyAudit :: "string \<Rightarrow> exn + (string \<times> string \<times> int)"
  contract_logAudit :: "string \<Rightarrow> string \<Rightarrow> string \<Rightarrow> int \<Rightarrow> exn + string"

record blockchain =
  pharmalyncAudit :: "audit_contract option"

definition verifyAudit :: "blockchain \<Rightarrow> string \<Rightarrow> exn + string" where
  "verifyAudit bc auditId =
     (case pharmalyncAudit bc of
        None \<Rightarrow> Inr []
      | Some c \<Rightarrow>
          (case contract_verifyAudit c auditId of
             Inr (action, dataHash, timestamp) \<Rightarrow> Inr dataHash
           | Inl error \<Rightarrow> Inr []))"

definition logAuditToBlockchain ::
  "blockchain \<Rightarrow> string \<Rightarrow> string \<Rightarrow> string \<Rightarrow> int \<Rightarrow> exn + string" where
  "logAuditToBlockchain bc auditId action dataHash timestamp =
     (case pharmalyncAudit bc of
        None \<Rightarrow> Inr ''OFF_CHAIN''
      | Some c \<Rightarrow> contract_logAudit c auditId action dataHash (timestamp div 1000))"

definition CriticalAction :: "string list" where
  "CriticalAction =
     [''VIEW_AADHAAR'', ''CREATE_PATIENT'', ''UPDATE_PATIENT'', ''MEDICINE_DISPENSE'',
      ''PRESCRIPTION_CREATE'']"

definition isCriticalAction :: "string \<Rightarrow> bool" where
  "isCriticalAction action = (action \<in> set CriticalAction)"

text \<open>A row of the \<^verbatim>\<open>auditLog\<close> table.\<close>

record auditLog =
  log_id :: string
  log_userId :: string
  log_action :: string
  log_resourceType :: string
  log_resourceId :: "string option"
  log_metadata :: "json option"
  log_timestamp :: int
  blockchainTxHash :: "string option"

type_synonym audit_table = "string \<rightharpoonup> auditLog"

text \<open>The argument of \<^verbatim>\<open>hashAuditData\<close> and \<^verbatim>\<open>logCriticalAudit\<close>.\<close>

record auditData =
  d_userId :: string
  d_action :: string
  d_resourceType :: string
  d_resourceId :: "string option"
  d_timestamp :: int

definition hashAuditData :: "node_lib \<Rightarrow> auditData \<Rightarrow> string" where
  "hashAuditData L ad =
     (let data = json_stringify L
            (JObj [(''userId'', JStr (d_userId ad)),
                   (''action'', JStr (d_action ad)),
                   (''resourceType'', JStr (d_resourceType ad)),
                   (''resourceId'',
                      JStr (if falsy (d_resourceId ad) then [] else the (d_resourceId ad))),
                   (''timestamp'', JStr (date_toISOString L (d_timestamp ad)))])
      in toHex (sha256 L data))"

text \<open>The parameter object of \<^verbatim>\<open>logAudit\<close>.\<close>

record audit_params =
  p_userId :: string
  p_action :: string
  p_resourceType :: string
  p_resourceId :: "string option"
  p_metadata :: "json option"

text \<open>
  \<^verbatim>\<open>logAudit\<close> creates the row (\<open>newId\<close> is the id the database gives it) and returns its
  id. For a critical action it also starts \<^verbatim>\<open>logCriticalAudit\<close> without awaiting it: the
  third component is that started call, which runs to its end after \<^verbatim>\<open>logAudit\<close> has
  returned, or never ends.
\<close>

definition logAudit ::
  "audit_table \<Rightarrow> string \<Rightarrow> int \<Rightarrow> audit_params \<Rightarrow>
     string \<times> audit_table \<times> (string \<times> auditData) option" where
  "logAudit db newId timestamp params =
     (let row = \<lparr>log_id = newId, log_userId = p_userId params, log_action = p_action params,
                 log_resourceType = p_resourceType params,
                 log_resourceId = p_resourceId params, log_metadata = p_metadata params,
                 log_timestamp = timestamp, blockchainTxHash = None\<rparr>;
          db' = db(newId \<mapsto> row)
      in (log_id row, db',
          if isCriticalAction (p_action params)
          then Some (log_id row,
                     \<lparr>d_userId = p_userId params, d_action = p_action params,
                      d_resourceType = p_resourceType params,
                      d_resourceId = p_resourceId params, d_timestamp = timestamp\<rparr>)
          else None))"

definition logCriticalAudit ::
  "node_lib \<Rightarrow> blockchain \<Rightarrow> audit_table \<Rightarrow> string \<Rightarrow> auditData \<Rightarrow> (exn + unit) \<times> audit_table" where
  "logCriticalAudit L bc db auditId ad =
     (let hash = hashAuditData L ad in
      case logAuditToBlockchain bc auditId (d_action ad) hash (d_timestamp ad) of
        Inl error \<Rightarrow> (Inl error, db)
      | Inr txHash \<Rightarrow>
          (case db auditId of
             None \<Rightarrow> (Inl (Error ''Record to update not found.''), db)
           | Some row \<Rightarrow> (Inr (), db(auditId \<mapsto> row\<lparr>blockchainTxHash := Some txHash\<rparr>))))"

text \<open>
  The started call run to its end, with the \<^verbatim>\<open>.catch\<close> handler \<^verbatim>\<open>logAudit\<close> attached: a
  rejection is written to the console and dropped.
\<close>

definition settle_critical ::
  "node_lib \<Rightarrow> blockchain \<Rightarrow> audit_table \<Rightarrow> (string \<times> auditData) option \<Rightarrow> audit_table" where
  "settle_critical L bc db started =
     (case started of
        None \<Rightarrow> db
      | Some (auditId, ad) \<Rightarrow> snd (logCriticalAudit L bc db auditId ad))"

definition getAuditLog :: "audit_table \<Rightarrow> string \<Rightarrow> auditLog option" where
  "getAuditLog db i = db i"

record integrity_result =
  valid :: bool
  localHash :: string
  blockchainHash :: "string option"
  error :: "string option"

definition verifyAuditIntegrity ::
  "node_lib \<Rightarrow> blockchain \<Rightarrow> audit_table \<Rightarrow> string \<Rightarrow> integrity_result" where
  "verifyAuditIntegrity L bc db auditId =
     (case getAuditLog db auditId of
        None \<Rightarrow>
          \<lparr>valid = False, localHash = [], blockchainHash = None,
           error = Some ''Audit log not found''\<rparr>
      | Some row \<Rightarrow>
          (let lh = hashAuditData L
                 \<lparr>d_userId = log_userId row, d_action = log_action row,
                  d_resourceType = log_resourceType row, d_resourceId = log_resourceId row,
                  d_timestamp = log_timestamp row\<rparr>
           in if falsy (blockchainTxHash row)
              then \<lparr>valid = True, localHash = lh, blockchainHash = None,
                    error = Some ''Not logged to blockchain''\<rparr>
              else
                (case verifyAudit bc auditId of
                   Inr bh \<Rightarrow>
                     (let v = (lh = bh)
                      in \<lparr>valid = v, localHash = lh, blockchainHash = Some bh,
                          error = (if v then None
                                   else Some ''Hash mismatch - data may be tampered'')\<rparr>)
                 | Inl e \<Rightarrow>
                     \<lparr>valid = False, localHash = lh, blockchainHash = None,
                      error = Some (''Blockchain verification failed: '' @ exn_toString e)\<rparr>)))"

text \<open>The fields of a row that \<^verbatim>\<open>verifyAuditIntegrity\<close> hashes.\<close>

definition row_data :: "auditLog \<Rightarrow> auditData" where
  "row_data row =
     \<lparr>d_userId = log_userId row, d_action = log_action row,
      d_resourceType = log_resourceType row, d_resourceId = log_resourceId row,
      d_timestamp = log_timestamp row\<rparr>"

section \<open>A small instance of the library\<close>

text \<open>
  Concrete functions in the place of the primitives, small enough to evaluate the services
  on concrete inputs: digests are the padded or cut message, a derived key is the padded or cut salt
  followed by the key block, the cipher reverses the plaintext and tags it with key and IV,
  bytes are transported unencoded, a date prints as four bytes in hexadecimal, and the JSON
  text of a flat object is its fields
  \<^verbatim>\<open>key=Stext;\<close> and \<^verbatim>\<open>key=N111;\<close> (a number in unary).
\<close>

definition demo_value :: "json \<Rightarrow> string" where
  "demo_value v =
     (case v of
        JStr s \<Rightarrow> CHR ''S'' # s
      | JNum n \<Rightarrow> CHR ''N'' # replicate (nat n) (CHR ''1'')
      | _ \<Rightarrow> ''?'')"

definition demo_stringify :: "json \<Rightarrow> string" where
  "demo_stringify j =
     (case j of
        JObj ps \<Rightarrow> concat (map (\<lambda>(k, v). k @ ''='' @ demo_value v @ '';'') ps)
      | v \<Rightarrow> demo_value v)"

definition demo_field :: "string \<Rightarrow> (string \<times> json) option" where
  "demo_field f =
     (case split_on (CHR ''='') f of
        [k, t # s] \<Rightarrow>
          (if t = CHR ''S'' then Some (k, JStr s)
           else if t = CHR ''N'' then Some (k, JNum (int (length s)))
           else None)
      | _ \<Rightarrow> None)"

definition demo_parse :: "string \<Rightarrow> json option" where
  "demo_parse s =
     (let parts = split_on (CHR '';'') s;
          fields = map demo_field (butlast parts)
      in if s = [] \<or> last parts \<noteq> [] \<or> None \<in> set fields then None
         else Some (JObj (map the fields)))"

definition demo_pad :: "nat \<Rightarrow> bytes \<Rightarrow> bytes" where
  "demo_pad n m = take n (m @ replicate n (CHR ''x''))"

definition demo_lib :: node_lib where
  "demo_lib =
     \<lparr>sha256 = (\<lambda>m. demo_pad 32 m),
      sha512 = (\<lambda>m. demo_pad 64 m),
      hmac_sha256 = (\<lambda>k m. demo_pad 32 (m @ k)),
      hmac_sha512 = (\<lambda>k m. demo_pad 64 (m @ k)),
      pbkdf2_sha512 =
        (\<lambda>k s i n. if i < 1 then Inl (RangeError ''iterations'') else Inr (demo_pad n (s @ k))),
      gcm_encrypt = (\<lambda>k iv p. (rev p, demo_pad 16 (iv @ k))),
      gcm_decrypt = (\<lambda>k iv t c. if t = demo_pad 16 (iv @ k) then Some (rev c) else None),
      json_stringify = demo_stringify,
      json_parse = demo_parse,
      base64url_encode = (\<lambda>b. b),
      base64url_decode = (\<lambda>s. s),
      buffer_from_value = (\<lambda>v. None),
      date_toISOString = (\<lambda>t. toHex (map (\<lambda>i. char_of (nat (t div 256 ^ i mod 256))) [3, 2, 1, 0])),
      jws_signing_input = (\<lambda>alg p. alg @ ''.'' @ demo_stringify p)\<rparr>"

definition demo_rng :: rng where
  "demo_rng = (\<lambda>i. char_of (i + 97))"

definition demo_key :: bytes where
  "demo_key = ''0123456789abcdef0123456789abcdef''"

text \<open>A configured ledger that cannot be reached, and the service without configuration.\<close>

definition demo_unreachable :: blockchain where
  "demo_unreachable =
     \<lparr>pharmalyncAudit = Some
        \<lparr>contract_verifyAudit = (\<lambda>auditId. Inl (Error ''network timeout'')),
         contract_logAudit = (\<lambda>auditId action dataHash t. Inl (Error ''network timeout''))\<rparr>\<rparr>"

definition demo_unconfigured :: blockchain where
  "demo_unconfigured = \<lparr>pharmalyncAudit = None\<rparr>"

definition demo_params :: audit_params where
  "demo_params =
     \<lparr>p_userId = ''u1'', p_action = ''VIEW_AADHAAR'', p_resourceType = ''PATIENT'',
      p_resourceId = Some ''p1'', p_metadata = None\<rparr>"

definition demo_config :: auth_config where
  "demo_config =
     \<lparr>PBKDF2_ITERATIONS = 10000, JWT_ACCESS_SECRET = ''access-secret'',
      JWT_REFRESH_SECRET = ''refresh-secret'', JWT_ACCESS_EXPIRY = 900,
      JWT_REFRESH_EXPIRY = 604800\<rparr>"

section \<open>Hexadecimal text, split and random bytes\<close>

lemma of_char_lt_256: "(of_char c :: nat) < 256"
proof -
  have "(of_char c :: nat) mod 256 = of_char c" by (rule of_char_mod_256)
  moreover have "(of_char c :: nat) mod 256 < 256" by simp
  ultimately show ?thesis by simp
qed

lemma of_char_div_16: "(of_char c :: nat) div 16 < 16"
  using of_char_lt_256 [of c] by (simp add: div_less_iff_less_mult)

lemma hex_val_digit: "n < 16 \<Longrightarrow> hex_val (hex_digit n) = Some n"
proof -
  assume n: "n < 16"
  have "list_all (\<lambda>n. hex_val (hex_digit n) = Some n) [0..<16]" by code_simp
  with n show ?thesis by (simp add: list_all_iff)
qed

lemma fromHex_toHex: "fromHex (toHex bs) = bs"
  by (induction bs) (simp_all add: hex_val_digit of_char_div_16)

lemma length_toHex: "length (toHex bs) = 2 * length bs"
  by (induction bs) simp_all

lemma hex_digit_not_colon: "hex_digit n \<noteq> CHR '':''"
proof -
  have "list_all (\<lambda>n. hex_digit n \<noteq> CHR '':'') [0..<16]" by code_simp
  then have "hex_digit (n mod 16) \<noteq> CHR '':''" by (simp add: list_all_iff)
  then show ?thesis by (simp add: hex_digit_def)
qed

lemma colon_notin_toHex: "CHR '':'' \<notin> set (toHex bs)"
  by (induction bs) (simp_all add: hex_digit_not_colon [symmetric])

lemma split_on_no_sep: "c \<notin> set xs \<Longrightarrow> split_on c xs = [xs]"
  by (induction xs) auto

lemma split_on_append: "c \<notin> set xs \<Longrightarrow> split_on c (xs @ c # ys) = xs # split_on c ys"
  by (induction xs) auto

lemma hex_digit_is_hex: "is_hex (hex_digit n)"
proof -
  have "list_all (\<lambda>n. is_hex (hex_digit n)) [0..<16]" by code_simp
  then have "is_hex (hex_digit (n mod 16))" by (simp add: list_all_iff)
  then show ?thesis by (simp add: hex_digit_def)
qed

lemma toHex_is_hex: "list_all is_hex (toHex bs)"
  by (induction bs) (simp_all add: hex_digit_is_hex)

lemma list_all_take: "list_all P xs \<Longrightarrow> list_all P (take n xs)"
  by (auto simp: list_all_iff dest: in_set_takeD)

lemma toHex_eq_Nil: "toHex bs = [] \<longleftrightarrow> bs = []"
  by (cases bs) simp_all

lemma length_randomBytes: "length (fst (randomBytes n r)) = n"
  by (simp add: randomBytes_def)

lemma length_demo_pad: "length (demo_pad n m) = n"
  by (auto simp: demo_pad_def)

section \<open>UTF-8\<close>

text \<open>
  Decoding inverts encoding on each code point: the decoder reads back the one, two, three
  or four bytes the encoder writes.
\<close>

lemma of_char_byte: "n < 256 \<Longrightarrow> (of_char (byte n) :: nat) = n"
  by (simp add: byte_def)

lemma low6_byte: "r < 64 \<Longrightarrow> low6 (byte (128 + r)) = r"
proof -
  assume r: "r < 64"
  have "(128 + r) mod 64 = (64 * 2 + r) mod 64" by simp
  also have "\<dots> = r mod 64" by (simp only: mod_mult_self4)
  finally have "(128 + r) mod 64 = r" using r by simp
  with r show ?thesis by (simp add: low6_def of_char_byte)
qed

lemma continuation_byte:
  "r < 64 \<Longrightarrow> continuation lo hi (byte (128 + r)) = (lo \<le> 128 + r \<and> 128 + r \<le> hi)"
  by (simp add: continuation_def of_char_byte)

lemma decode_1:
  assumes "n < 128"
  shows "utf8_decode (utf8_1 n @ bs) = of_nat n # utf8_decode bs"
  using assms by (simp add: utf8_1_def of_char_byte code_units_def)

lemma decode_2:
  assumes "128 \<le> n" "n < 2048"
  shows "utf8_decode (utf8_2 n @ bs) = of_nat n # utf8_decode bs"
proof -
  define q r where "q = n div 64" and "r = n mod 64"
  have n: "n = q * 64 + r" and r: "r < 64" by (simp_all add: q_def r_def)
  from n r assms have q: "2 \<le> q" "q < 32" by linarith+
  have lead: "(of_char (byte (192 + q)) :: nat) = 192 + q"
    using q by (simp add: of_char_byte)
  have "utf8_decode ([byte (192 + q), byte (128 + r)] @ bs) = of_nat n # utf8_decode bs"
    using q r assms(2)
    by (simp add: lead continuation_byte low6_byte code_units_def n)
  then show ?thesis by (simp add: utf8_2_def q_def r_def)
qed

lemma decode_3:
  assumes "2048 \<le> n" "n < 65536" "\<not> is_high n" "\<not> is_low n"
  shows "utf8_decode (utf8_3 n @ bs) = of_nat n # utf8_decode bs"
proof -
  define q r where "q = n div 64" and "r = n mod 64"
  define q1 r1 where "q1 = q div 64" and "r1 = q mod 64"
  have n: "n = q * 64 + r" and r: "r < 64" by (simp_all add: q_def r_def)
  have q: "q = q1 * 64 + r1" and r1: "r1 < 64" by (simp_all add: q1_def r1_def)
  have top: "n div 4096 = q1"
    using div_mult2_eq [of n 64 64] by (simp add: q_def q1_def)
  from n q r r1 assms(2) have q1: "q1 < 16" by linarith
  have lo: "32 \<le> r1" if "q1 = 0"
    using that n q r r1 assms(1) by linarith
  have hi: "r1 \<le> 31" if "q1 = 13"
    using that n q r r1 assms(3,4) unfolding is_high_def is_low_def by linarith
  have lead: "(of_char (byte (224 + q1)) :: nat) = 224 + q1"
    using q1 by (simp add: of_char_byte)
  have val: "q1 * 4096 + r1 * 64 + r = n"
    using n q by linarith
  have "utf8_decode ([byte (224 + q1), byte (128 + r1), byte (128 + r)] @ bs)
          = of_nat n # utf8_decode bs"
    using q1 r r1 assms(2)
    by (simp add: lead continuation_byte low6_byte code_units_def val lo hi)
  then show ?thesis by (simp add: utf8_3_def top r1_def q_def r_def)
qed

lemma decode_4:
  assumes "65536 \<le> n" "n < 1114112"
  shows "utf8_decode (utf8_4 n @ bs) = code_units n @ utf8_decode bs"
proof -
  define q r where "q = n div 64" and "r = n mod 64"
  define q1 r1 where "q1 = q div 64" and "r1 = q mod 64"
  define q2 r2 where "q2 = q1 div 64" and "r2 = q1 mod 64"
  have n: "n = q * 64 + r" and r: "r < 64" by (simp_all add: q_def r_def)
  have q: "q = q1 * 64 + r1" and r1: "r1 < 64" by (simp_all add: q1_def r1_def)
  have q1: "q1 = q2 * 64 + r2" and r2: "r2 < 64" by (simp_all add: q2_def r2_def)
  have mid: "n div 4096 = q1"
    using div_mult2_eq [of n 64 64] by (simp add: q_def q1_def)
  have top: "n div 262144 = q2"
    using div_mult2_eq [of n 4096 64] by (simp add: mid q2_def)
  from n q q1 r r1 r2 assms(2) have q2: "q2 < 5" by linarith
  have lo: "16 \<le> r2" if "q2 = 0"
    using that n q q1 r r1 r2 assms(1) by linarith
  have hi: "r2 \<le> 15" if "q2 = 4"
    using that n q q1 r r1 r2 assms(2) by linarith
  have lead: "(of_char (byte (240 + q2)) :: nat) = 240 + q2"
    using q2 by (simp add: of_char_byte)
  have val: "q2 * 262144 + r2 * 4096 + r1 * 64 + r = n"
    using n q q1 by linarith
  have "utf8_decode ([byte (240 + q2), byte (128 + r2), byte (128 + r1), byte (128 + r)] @ bs)
          = code_units n @ utf8_decode bs"
    using q2 r r1 r2
    by (simp add: lead continuation_byte low6_byte val lo hi)
  then show ?thesis by (simp add: utf8_4_def top mid r2_def r1_def q_def r_def)
qed

lemma code_units_pair:
  assumes "is_high h" "is_low l"
  shows "code_units (pair_code_point h l) = [of_nat h, of_nat l]"
proof -
  define a b where "a = h - 55296" and "b = l - 56320"
  from assms have h: "h = 55296 + a" and a: "a < 1024"
    and l: "l = 56320 + b" and b: "b < 1024"
    unfolding is_high_def is_low_def a_def b_def by linarith+
  have cp: "pair_code_point h l = 65536 + (a * 1024 + b)"
    by (simp add: pair_code_point_def h l)
  show ?thesis
    using a b by (simp add: code_units_def cp) (simp add: h l)
qed

lemma pair_code_point_range:
  assumes "is_high h" "is_low l"
  shows "65536 \<le> pair_code_point h l \<and> pair_code_point h l < 1114112"
  using assms unfolding is_high_def is_low_def pair_code_point_def by linarith

lemma unat_16: "unat (u :: 16 word) < 65536"
  using unsigned_less [of u, where 'a = nat] by simp


lemma utf8_round_trip: "well_formed s \<Longrightarrow> utf8_decode (utf8_encode s) = s"
proof (induction s rule: utf8_encode.induct)
  case 1
  then show ?case by simp
next
  case (2 u us)
  let ?n = "unat u"
  have u: "of_nat ?n = u" by simp
  consider (one) "?n < 128" | (two) "128 \<le> ?n" "?n < 2048"
    | (pair) "2048 \<le> ?n" "is_high ?n" | (three) "2048 \<le> ?n" "\<not> is_high ?n"
    by linarith
  then show ?case
  proof cases
    case one
    then have nh: "\<not> is_high ?n" "\<not> is_low ?n" by (simp_all add: is_high_def is_low_def)
    from "2.prems" nh have wf: "well_formed us" by simp
    have ih: "utf8_decode (utf8_encode us) = us"
      using "2.IH"(1) [OF refl one] wf by simp
    have "utf8_encode (u # us) = utf8_1 ?n @ utf8_encode us"
      using one by simp
    then show ?thesis by (simp only: decode_1 [OF one] ih u)
  next
    case two
    then have nh: "\<not> is_high ?n" "\<not> is_low ?n" by (simp_all add: is_high_def is_low_def)
    from "2.prems" nh have wf: "well_formed us" by simp
    from two have big: "\<not> ?n < 128" by simp
    have ih: "utf8_decode (utf8_encode us) = us"
      using "2.IH"(2) [OF refl big two(2)] wf by simp
    have "utf8_encode (u # us) = utf8_2 ?n @ utf8_encode us"
      using two by simp
    then show ?thesis by (simp only: decode_2 [OF two] ih u)
  next
    case pair
    with "2.prems" obtain v rest where us: "us = v # rest" and low: "is_low (unat v)"
      and wf: "well_formed rest"
      by (cases us) auto
    from pair have big: "\<not> ?n < 128" "\<not> ?n < 2048" by simp_all
    have ih: "utf8_decode (utf8_encode rest) = rest"
      using "2.IH"(3) [OF refl big(1) big(2) pair(2) us low] wf by simp
    have enc: "utf8_encode (u # v # rest) = utf8_4 (pair_code_point ?n (unat v)) @ utf8_encode rest"
      using pair big low by simp
    have range: "65536 \<le> pair_code_point ?n (unat v)" "pair_code_point ?n (unat v) < 1114112"
      using pair_code_point_range [OF pair(2) low] by simp_all
    show ?thesis
      unfolding us
      by (simp only: enc decode_4 [OF range] code_units_pair [OF pair(2) low] ih) simp
  next
    case three
    with "2.prems" have nl: "\<not> is_low ?n" and wf: "well_formed us" by simp_all
    from three have big: "\<not> ?n < 128" "\<not> ?n < 2048" by simp_all
    have ih: "utf8_decode (utf8_encode us) = us"
      using "2.IH"(6) [OF refl big(1) big(2) three(2) nl] wf by simp
    have enc: "utf8_encode (u # us) = utf8_3 ?n @ utf8_encode us"
      using three big nl by simp
    show ?thesis
      by (simp only: enc decode_3 [OF three(1) unat_16 three(2) nl] ih u)
  qed
qed

section \<open>Passwords\<close>

lemma split_stored:
  "split_on (CHR '':'') (toHex salt @ CHR '':'' # toHex dk) = [toHex salt, toHex dk]"
  using split_on_append [of "CHR '':''" "toHex salt" "toHex dk"]
  by (simp add: colon_notin_toHex split_on_no_sep)

text \<open>
  Against a stored value the service produced, verification is the comparison of the two
  derived keys.
\<close>

lemma verifyPassword_stored:
  assumes salt: "salt \<noteq> []" and dk: "dk \<noteq> []"
  shows "verifyPassword L cfg q (toHex salt @ CHR '':'' # toHex dk) =
           (case crypto_pbkdf2 L q salt (PBKDF2_ITERATIONS cfg) 64 of
              Inl err \<Rightarrow> Inl err
            | Inr dk' \<Rightarrow> Inr (length dk = length dk' \<and> dk = dk'))"
  using salt dk
  by (simp add: verifyPassword_def split_stored toHex_eq_Nil fromHex_toHex timingSafeEqual_def
      Let_def split: sum.splits)

lemma verifyPassword_guard:
  "falsy (nth_opt (split_on (CHR '':'') stored) 0) \<or> falsy (nth_opt (split_on (CHR '':'') stored) 1)
     \<Longrightarrow> verifyPassword L cfg p stored = Inr False"
  by (simp add: verifyPassword_def Let_def)

lemma hashPassword_stored:
  assumes "crypto_pbkdf2 L pw (fst (randomBytes 16 r)) (PBKDF2_ITERATIONS cfg) 64 = Inr dk"
  shows "fst (hashPassword L cfg r pw) = Inr (toHex (fst (randomBytes 16 r)) @ CHR '':'' # toHex dk)"
  using assms by (simp add: hashPassword_def randomBytes_def)

text \<open>
  With a key derivation that succeeds with its 64 bytes, a password is accepted against
  the stored value of another exactly when the two derived keys under the stored salt
  are equal.
\<close>

lemma verifyPassword_hashPassword_keys:
  assumes kdf: "\<forall>k s. \<exists>dk. pbkdf2_sha512 L k s (PBKDF2_ITERATIONS cfg) 64 = Inr dk \<and> length dk = 64"
  shows "\<exists>stored. fst (hashPassword L cfg r pw) = Inr stored
           \<and> (\<forall>q. verifyPassword L cfg q stored
                  = Inr (crypto_pbkdf2 L q (fst (randomBytes 16 r)) (PBKDF2_ITERATIONS cfg) 64
                         = crypto_pbkdf2 L pw (fst (randomBytes 16 r)) (PBKDF2_ITERATIONS cfg) 64))"
proof -
  define salt where "salt = fst (randomBytes 16 r)"
  have "length salt = 16" by (simp add: salt_def length_randomBytes)
  then have salt_ne: "salt \<noteq> []" by auto
  from kdf obtain dk where dk: "crypto_pbkdf2 L pw salt (PBKDF2_ITERATIONS cfg) 64 = Inr dk"
    and dk_len: "length dk = 64"
    unfolding crypto_pbkdf2_def by blast
  from dk_len have dk_ne: "dk \<noteq> []" by auto
  let ?stored = "toHex salt @ CHR '':'' # toHex dk"
  have hp: "fst (hashPassword L cfg r pw) = Inr ?stored"
    using dk unfolding salt_def by (rule hashPassword_stored)
  have "verifyPassword L cfg q ?stored
          = Inr (crypto_pbkdf2 L q salt (PBKDF2_ITERATIONS cfg) 64
                 = crypto_pbkdf2 L pw salt (PBKDF2_ITERATIONS cfg) 64)" for q
  proof -
    from kdf obtain dk' where dk': "crypto_pbkdf2 L q salt (PBKDF2_ITERATIONS cfg) 64 = Inr dk'"
      unfolding crypto_pbkdf2_def by blast
    show ?thesis
      using dk dk' by (auto simp add: verifyPassword_stored [OF salt_ne dk_ne])
  qed
  with hp show ?thesis unfolding salt_def by blast
qed

text \<open>
  Two passwords with the same HMAC key block have the same derived key. The block is the
  same for two strings with the same UTF-8 encoding, and for a password of fewer than 128
  bytes and the same password followed by a NUL character.
\<close>

lemma utf8_encode_NUL: "utf8_encode (s @ [0]) = utf8_encode s @ [char_of (0::nat)]"
proof (induction s rule: utf8_encode.induct)
  case 1
  show ?case by (simp add: utf8_1_def byte_def)
next
  case (2 u us)
  have z: "\<not> is_low (unat (0::16 word))" by (simp add: is_low_def)
  show ?case
  proof (cases us)
    case Nil
    then show ?thesis using z by (simp add: Let_def utf8_1_def byte_def)
  next
    case (Cons v rest)
    with "2.IH" show ?thesis by (simp add: Let_def)
  qed
qed

lemma hmac_key_NUL:
  assumes "length key < 128"
  shows "hmac_key L (key @ [char_of (0::nat)]) = hmac_key L key"
proof -
  from assms obtain d where d: "128 - length key = Suc d" "127 - length key = d"
    by (cases "128 - length key") auto
  with assms show ?thesis
    by (simp add: hmac_key_def Let_def)
qed

lemma crypto_pbkdf2_NUL:
  "length (utf8_encode pw) < 128
     \<Longrightarrow> crypto_pbkdf2 L (pw @ [0]) salt iterations keylen = crypto_pbkdf2 L pw salt iterations keylen"
  by (simp add: crypto_pbkdf2_def utf8_encode_NUL hmac_key_NUL)

lemma utf8_encode_lone_surrogate: "utf8_encode [0xD800] = utf8_encode [0xFFFD]"
  by (simp add: is_high_def is_low_def)

lemma verifyPassword_accepts_NUL:
  assumes kdf: "\<forall>k s. \<exists>dk. pbkdf2_sha512 L k s (PBKDF2_ITERATIONS cfg) 64 = Inr dk \<and> length dk = 64"
    and short: "length (utf8_encode pw) < 128"
  shows "\<exists>stored. fst (hashPassword L cfg r pw) = Inr stored
           \<and> verifyPassword L cfg (pw @ [0]) stored = Inr True"
  using verifyPassword_hashPassword_keys [OF kdf, of r pw] crypto_pbkdf2_NUL [OF short, of L]
  by auto

lemma verifyPassword_accepts_same_encoding:
  assumes kdf: "\<forall>k s. \<exists>dk. pbkdf2_sha512 L k s (PBKDF2_ITERATIONS cfg) 64 = Inr dk \<and> length dk = 64"
    and same: "utf8_encode q = utf8_encode pw"
  shows "\<exists>stored. fst (hashPassword L cfg r pw) = Inr stored
           \<and> verifyPassword L cfg q stored = Inr True"
  using verifyPassword_hashPassword_keys [OF kdf, of r pw] same
  by (auto simp add: crypto_pbkdf2_def)

text \<open>The small instance: its key derivation, a password and a wrong one.\<close>

lemma demo_kdf:
  "\<forall>k s. \<exists>dk. pbkdf2_sha512 demo_lib k s (PBKDF2_ITERATIONS demo_config) 64 = Inr dk \<and> length dk = 64"
  by (simp add: demo_lib_def demo_config_def length_demo_pad)

lemma demo_pw: "utf8_encode [0x70, 0x77] = ''pw''"
  by (simp add: utf8_1_def byte_def char_of_eq_iff)

lemma demo_wrong: "utf8_encode [0x77, 0x72, 0x6F, 0x6E, 0x67] = ''wrong''"
  by (simp add: utf8_1_def byte_def char_of_eq_iff)

lemma demo_crypto_pbkdf2:
  assumes "length salt = 16" "length key \<le> 48"
  shows "pbkdf2_sha512 demo_lib (hmac_key demo_lib key) salt (PBKDF2_ITERATIONS demo_config) 64
           = Inr (salt @ key @ replicate (48 - length key) (char_of (0::nat)))"
  using assms
  by (simp add: demo_lib_def demo_config_def demo_pad_def hmac_key_def Let_def)

lemma toHex_append: "toHex (xs @ ys) = toHex xs @ toHex ys"
  by (induction xs) simp_all

lemma toHex_zeros: "toHex (replicate n (char_of (0::nat))) = replicate (2 * n) (CHR ''0'')"
  by (induction n) (simp_all add: hex_digit_def)

lemma demo_iv: "fst (randomBytes 16 demo_rng) = ''abcdefghijklmnop''"
  by (simp add: randomBytes_def demo_rng_def upt_rec char_of_eq_iff)

lemma demo_salt: "toHex (fst (randomBytes 16 demo_rng)) = ''6162636465666768696a6b6c6d6e6f70''"
  by (simp add: randomBytes_def demo_rng_def hex_digit_def upt_rec)

lemma toHex_pw: "toHex ''pw'' = ''7077''"
  by (simp add: hex_digit_def)

lemma demo_hashPassword:
  "fst (hashPassword demo_lib demo_config demo_rng [0x70, 0x77])
     = Inr (''6162636465666768696a6b6c6d6e6f70:6162636465666768696a6b6c6d6e6f707077''
            @ replicate 92 (CHR ''0''))"
proof -
  have len: "length (fst (randomBytes 16 demo_rng)) = 16" by (rule length_randomBytes)
  have "crypto_pbkdf2 demo_lib [0x70, 0x77] (fst (randomBytes 16 demo_rng))
          (PBKDF2_ITERATIONS demo_config) 64
        = Inr (fst (randomBytes 16 demo_rng) @ ''pw'' @ replicate 46 (char_of (0::nat)))"
    unfolding crypto_pbkdf2_def demo_pw
    using demo_crypto_pbkdf2 [OF len, of "''pw''"] by simp
  from hashPassword_stored [OF this]
  show ?thesis
    by (simp only: toHex_append toHex_zeros toHex_pw demo_salt) simp
qed

lemma demo_wrong_key:
  "crypto_pbkdf2 demo_lib [0x77, 0x72, 0x6F, 0x6E, 0x67] (fst (randomBytes 16 demo_rng))
     (PBKDF2_ITERATIONS demo_config) 64
   \<noteq> crypto_pbkdf2 demo_lib [0x70, 0x77] (fst (randomBytes 16 demo_rng))
     (PBKDF2_ITERATIONS demo_config) 64"
proof -
  have len: "length (fst (randomBytes 16 demo_rng)) = 16" by (rule length_randomBytes)
  show ?thesis
    unfolding crypto_pbkdf2_def demo_pw demo_wrong
    using demo_crypto_pbkdf2 [OF len, of "''pw''"] demo_crypto_pbkdf2 [OF len, of "''wrong''"]
    by simp
qed

text \<open>
  Claim C8, amended. With a key derivation that succeeds with its 64 bytes: the value
  \<open>hashPassword\<close> stores for a password verifies that password (\<open>true\<close>); any
  password is accepted against it (\<open>true\<close>) when PBKDF2 derives for it, under the stored
  salt, the key it derived for the stored password, and refused (\<open>false\<close>) when the
  two keys differ; and a stored value with a missing or empty salt or hash component (no
  separator, nothing before the first separator, nothing after it) yields \<open>false\<close>,
  not an error, whatever the key derivation does.
\<close>

theorem verifyPassword_hashPassword_derived_key:
  assumes kdf: "\<forall>k s. \<exists>dk. pbkdf2_sha512 L k s (PBKDF2_ITERATIONS cfg) 64 = Inr dk \<and> length dk = 64"
  shows "(\<exists>stored. fst (hashPassword L cfg r pw) = Inr stored
            \<and> verifyPassword L cfg pw stored = Inr True
            \<and> (\<forall>q. verifyPassword L cfg q stored
                   = Inr (crypto_pbkdf2 L q (fst (randomBytes 16 r)) (PBKDF2_ITERATIONS cfg) 64
                          = crypto_pbkdf2 L pw (fst (randomBytes 16 r)) (PBKDF2_ITERATIONS cfg) 64)))
       \<and> (\<forall>p stored. CHR '':'' \<notin> set stored \<longrightarrow> verifyPassword L cfg p stored = Inr False)
       \<and> (\<forall>p rest. verifyPassword L cfg p (CHR '':'' # rest) = Inr False)
       \<and> (\<forall>p s rest. CHR '':'' \<notin> set s \<longrightarrow>
             verifyPassword L cfg p (s @ '':'') = Inr False
             \<and> verifyPassword L cfg p (s @ ''::'' @ rest) = Inr False)"
proof -
  from verifyPassword_hashPassword_keys [OF kdf, of r pw]
  obtain stored where hp: "fst (hashPassword L cfg r pw) = Inr stored"
    and cmp: "\<And>q. verifyPassword L cfg q stored
                = Inr (crypto_pbkdf2 L q (fst (randomBytes 16 r)) (PBKDF2_ITERATIONS cfg) 64
                       = crypto_pbkdf2 L pw (fst (randomBytes 16 r)) (PBKDF2_ITERATIONS cfg) 64)"
    by blast
  have ok: "verifyPassword L cfg pw stored = Inr True" by (simp add: cmp)
  have part1: "\<exists>stored. fst (hashPassword L cfg r pw) = Inr stored
            \<and> verifyPassword L cfg pw stored = Inr True
            \<and> (\<forall>q. verifyPassword L cfg q stored
                   = Inr (crypto_pbkdf2 L q (fst (randomBytes 16 r)) (PBKDF2_ITERATIONS cfg) 64
                          = crypto_pbkdf2 L pw (fst (randomBytes 16 r)) (PBKDF2_ITERATIONS cfg) 64))"
    using hp ok cmp by blast
  have nocolon: "verifyPassword L cfg p stored = Inr False" if "CHR '':'' \<notin> set stored" for p stored
    using that by (intro verifyPassword_guard) (simp add: split_on_no_sep)
  have emptysalt: "verifyPassword L cfg p (CHR '':'' # rest) = Inr False" for p rest
    by (intro verifyPassword_guard) simp
  have emptyhash1: "verifyPassword L cfg p (s @ '':'') = Inr False" if "CHR '':'' \<notin> set s" for p s
    using that split_on_append [of "CHR '':''" s "[]"]
    by (intro verifyPassword_guard) simp
  have emptyhash2: "verifyPassword L cfg p (s @ ''::'' @ rest) = Inr False"
    if "CHR '':'' \<notin> set s" for p s rest
    using that split_on_append [of "CHR '':''" s "CHR '':'' # rest"]
    by (intro verifyPassword_guard) simp
  show ?thesis
    using part1 nocolon emptysalt emptyhash1 emptyhash2 by blast
qed

theorem verifyPassword_hashPassword_derived_key_witness:
  "(\<forall>k s. \<exists>dk. pbkdf2_sha512 demo_lib k s (PBKDF2_ITERATIONS demo_config) 64 = Inr dk \<and> length dk = 64)
   \<and> (\<exists>stored. fst (hashPassword demo_lib demo_config demo_rng [0x70, 0x77]) = Inr stored
         \<and> verifyPassword demo_lib demo_config [0x70, 0x77] stored = Inr True
         \<and> verifyPassword demo_lib demo_config [0x77, 0x72, 0x6F, 0x6E, 0x67] stored = Inr False)
   \<and> CHR '':'' \<notin> set ''0a1b2c''
   \<and> verifyPassword demo_lib demo_config [0x70, 0x77] ''0a1b2c'' = Inr False
   \<and> verifyPassword demo_lib demo_config [0x70, 0x77] '':0a1b2c'' = Inr False
   \<and> verifyPassword demo_lib demo_config [0x70, 0x77] ''0a1b2c:'' = Inr False"
proof -
  note T = verifyPassword_hashPassword_derived_key [OF demo_kdf, of demo_rng "[0x70, 0x77]"]
  have nosep: "CHR '':'' \<notin> set ''0a1b2c''" by simp
  from T [THEN conjunct1] obtain stored
    where hp: "fst (hashPassword demo_lib demo_config demo_rng [0x70, 0x77]) = Inr stored"
      and ok: "verifyPassword demo_lib demo_config [0x70, 0x77] stored = Inr True"
      and cmp: "\<forall>q. verifyPassword demo_lib demo_config q stored
                 = Inr (crypto_pbkdf2 demo_lib q (fst (randomBytes 16 demo_rng))
                          (PBKDF2_ITERATIONS demo_config) 64
                        = crypto_pbkdf2 demo_lib [0x70, 0x77] (fst (randomBytes 16 demo_rng))
                          (PBKDF2_ITERATIONS demo_config) 64)"
    by (elim exE conjE)
  have wrong: "verifyPassword demo_lib demo_config [0x77, 0x72, 0x6F, 0x6E, 0x67] stored = Inr False"
    using cmp [rule_format, of "[0x77, 0x72, 0x6F, 0x6E, 0x67]"] demo_wrong_key
    by (simp only: simp_thms)
  have part1: "\<exists>stored. fst (hashPassword demo_lib demo_config demo_rng [0x70, 0x77]) = Inr stored
         \<and> verifyPassword demo_lib demo_config [0x70, 0x77] stored = Inr True
         \<and> verifyPassword demo_lib demo_config [0x77, 0x72, 0x6F, 0x6E, 0x67] stored = Inr False"
    using hp ok wrong by (intro exI conjI)
  have m1: "verifyPassword demo_lib demo_config [0x70, 0x77] ''0a1b2c'' = Inr False"
    using T [THEN conjunct2, THEN conjunct1, rule_format, OF nosep] .
  have m2: "verifyPassword demo_lib demo_config [0x70, 0x77] '':0a1b2c'' = Inr False"
    using T [THEN conjunct2, THEN conjunct2, THEN conjunct1, rule_format,
             of "[0x70, 0x77]" "''0a1b2c''"] .
  have m3: "verifyPassword demo_lib demo_config [0x70, 0x77] ''0a1b2c:'' = Inr False"
    using T [THEN conjunct2, THEN conjunct2, THEN conjunct2, rule_format, OF nosep,
             THEN conjunct1, of "[0x70, 0x77]"]
    by simp
  from demo_kdf part1 nosep m1 m2 m3 show ?thesis by (intro conjI)
qed

text \<open>
  Against claim C8 as stated: the password \<^verbatim>\<open>pw\<close> followed by a NUL character is
  another password than \<^verbatim>\<open>pw\<close>, and is accepted against the value stored for
  \<^verbatim>\<open>pw\<close>. HMAC makes the same key block of both: \<^verbatim>\<open>pw\<close> and 126 zero bytes.
\<close>

theorem verifyPassword_accepts_password_followed_by_NUL:
  "fst (hashPassword demo_lib demo_config demo_rng [0x70, 0x77])
     = Inr (''6162636465666768696a6b6c6d6e6f70:6162636465666768696a6b6c6d6e6f707077''
            @ replicate 92 (CHR ''0''))
   \<and> verifyPassword demo_lib demo_config [0x70, 0x77, 0x00]
        (''6162636465666768696a6b6c6d6e6f70:6162636465666768696a6b6c6d6e6f707077''
         @ replicate 92 (CHR ''0''))
     = Inr True
   \<and> [0x70, 0x77, 0x00] \<noteq> ([0x70, 0x77] :: jsstring)"
proof -
  have short: "length (utf8_encode [0x70, 0x77]) < 128" by (simp only: demo_pw) simp
  from verifyPassword_accepts_NUL [OF demo_kdf short, of demo_rng]
  show ?thesis by (simp add: demo_hashPassword)
qed

text \<open>
  So is U+FFFD against the value stored for a surrogate without its partner: the two
  passwords have the same UTF-8 encoding.
\<close>

lemma verifyPassword_accepts_replacement_character:
  "\<exists>stored. fst (hashPassword demo_lib demo_config demo_rng [0xD800]) = Inr stored
     \<and> verifyPassword demo_lib demo_config [0xFFFD] stored = Inr True"
  using utf8_encode_lone_surrogate
  by (intro verifyPassword_accepts_same_encoding [OF demo_kdf]) (simp only:)


section \<open>Identity numbers\<close>

text \<open>
  Claim C9. Tokenization reads only the master key and the identifier (it takes no random
  source, unlike \<open>encryptPII\<close> or \<open>hashPassword\<close>), so two calls on the same
  identifier are the same value: for twelve digits, the first 32 hexadecimal characters of
  the keyed digest; for \<open>490154203517\<close> a pseudonym of exactly 32 hexadecimal
  characters. An input that is not exactly twelve digits, such as \<open>12345\<close>, is refused
  with the format error.
\<close>

theorem tokenizeAadhaar_deterministic_and_validated:
  assumes mac: "\<forall>k m. length (hmac_sha256 L k m) = 32"
  shows "(\<exists>t. tokenizeAadhaar L masterKey ''490154203517'' = Inr t \<and> length t = 32 \<and> list_all is_hex t)
       \<and> tokenizeAadhaar L masterKey ''12345''
           = Inl (Error ''Invalid Aadhaar format. Must be exactly 12 digits.'')
       \<and> (\<forall>a. length a = 12 \<and> list_all is_digit a \<longrightarrow>
             tokenizeAadhaar L masterKey a = Inr (take 32 (toHex (hmac_sha256 L masterKey a)))
             \<and> length (take 32 (toHex (hmac_sha256 L masterKey a))) = 32
             \<and> list_all is_hex (take 32 (toHex (hmac_sha256 L masterKey a))))
       \<and> (\<forall>a. \<not> (length a = 12 \<and> list_all is_digit a) \<longrightarrow>
             tokenizeAadhaar L masterKey a
               = Inl (Error ''Invalid Aadhaar format. Must be exactly 12 digits.''))"
proof -
  have valid: "validateAadhaarFormat ''490154203517''"
    by (simp add: validateAadhaarFormat_def is_digit_def)
  have invalid: "\<not> validateAadhaarFormat ''12345''"
    by (simp add: validateAadhaarFormat_def)
  have len: "length (take 32 (toHex (hmac_sha256 L masterKey a))) = 32" for a
    using mac by (simp add: length_toHex)
  have hex: "list_all is_hex (take 32 (toHex (hmac_sha256 L masterKey a)))" for a
    by (rule list_all_take) (rule toHex_is_hex)
  show ?thesis
    using valid invalid len hex
    by (simp add: tokenizeAadhaar_def validateAadhaarFormat_def)
qed

theorem tokenizeAadhaar_witness:
  "(\<forall>k m. length (hmac_sha256 demo_lib k m) = 32)
   \<and> tokenizeAadhaar demo_lib demo_key ''490154203517'' = Inr ''34393031353432303335313730313233''
   \<and> tokenizeAadhaar demo_lib demo_key ''12345''
       = Inl (Error ''Invalid Aadhaar format. Must be exactly 12 digits.'')"
proof -
  have mac: "\<forall>k m. length (hmac_sha256 demo_lib k m) = 32"
    by (simp add: demo_lib_def length_demo_pad)
  have dig: "length ''490154203517'' = 12 \<and> list_all is_digit ''490154203517''"
    by (simp add: is_digit_def)
  have val: "take 32 (toHex (hmac_sha256 demo_lib demo_key ''490154203517''))
               = ''34393031353432303335313730313233''"
    by code_simp
  from tokenizeAadhaar_deterministic_and_validated [OF mac, of demo_key] dig val mac
  show ?thesis by metis
qed

text \<open>
  Claim C10. For a valid twelve-digit identifier the computed lookup hash has 64
  characters, and \<open>verifyAadhaarHash\<close> returns a boolean only for a stored hash of that
  length: for any other length the comparison throws, and the exception is the result of
  the call.
\<close>

theorem verifyAadhaarHash_length:
  assumes dig: "\<forall>m. length (sha256 L m) = 32"
    and valid: "validateAadhaarFormat aadhaar"
  shows "(length storedHash \<noteq> 64 \<longrightarrow>
            verifyAadhaarHash L masterKey aadhaar storedHash
              = Inl (RangeError ''Input buffers must have the same byte length''))
       \<and> (length storedHash = 64 \<longrightarrow>
            (\<exists>b. verifyAadhaarHash L masterKey aadhaar storedHash = Inr b))
       \<and> (\<exists>computed. hashAadhaar L masterKey aadhaar = Inr computed \<and> length computed = 64)"
  using dig valid
  by (simp add: verifyAadhaarHash_def hashAadhaar_def tokenizeAadhaar_def timingSafeEqual_def
      length_toHex)

theorem verifyAadhaarHash_length_witness:
  "(\<forall>m. length (sha256 demo_lib m) = 32)
   \<and> validateAadhaarFormat ''490154203517''
   \<and> verifyAadhaarHash demo_lib demo_key ''490154203517'' ''abc''
       = Inl (RangeError ''Input buffers must have the same byte length'')
   \<and> (\<exists>b. verifyAadhaarHash demo_lib demo_key ''490154203517'' (replicate 64 (CHR ''0'')) = Inr b)"
proof -
  have dig: "\<forall>m. length (sha256 demo_lib m) = 32"
    by (simp add: demo_lib_def length_demo_pad)
  have valid: "validateAadhaarFormat ''490154203517''"
    by (simp add: validateAadhaarFormat_def is_digit_def)
  from verifyAadhaarHash_length [OF dig valid, of "''abc''" demo_key]
    verifyAadhaarHash_length [OF dig valid, of "replicate 64 (CHR ''0'')" demo_key]
    dig valid
  show ?thesis by simp
qed

section \<open>Field encryption\<close>

text \<open>
  With an authenticated cipher whose decryption inverts its encryption and whose tag has
  16 bytes, \<open>decryptPII\<close> returns the decoding of the encoding of the plaintext
  \<open>encryptPII\<close> was given.
\<close>

lemma decryptPII_encryptPII_decodes:
  assumes inv: "\<forall>k iv p. gcm_decrypt L k iv (snd (gcm_encrypt L k iv p)) (fst (gcm_encrypt L k iv p)) = Some p"
    and tag: "\<forall>k iv p. length (snd (gcm_encrypt L k iv p)) = 16"
    and nonempty: "data \<noteq> []"
  shows "\<exists>buf. fst (encryptPII L masterKey r data uid) = Inr buf
           \<and> decryptPII L masterKey buf uid = Inr (utf8_decode (utf8_encode data))"
proof -
  define key where "key = (if \<not> falsy uid then deriveUserKey L masterKey (the uid) else masterKey)"
  define iv where "iv = map r [0..<16]"
  define ct where "ct = fst (gcm_encrypt L key iv (utf8_encode data))"
  define tg where "tg = snd (gcm_encrypt L key iv (utf8_encode data))"
  have iv_len: "length iv = 16" by (simp add: iv_def)
  have tg_len: "length tg = 16" using tag by (simp add: tg_def)
  have enc: "fst (encryptPII L masterKey r data uid) = Inr (iv @ tg @ ct)"
    using nonempty
    by (simp add: encryptPII_def randomBytes_def key_def iv_def ct_def tg_def Let_def
        split: prod.splits)
  have dec: "gcm_decrypt L key iv tg ct = Some (utf8_encode data)"
    using inv by (simp add: ct_def tg_def)
  have "decryptPII L masterKey (iv @ tg @ ct) uid = Inr (utf8_decode (utf8_encode data))"
    using iv_len tg_len dec
    by (simp add: decryptPII_def key_def Let_def)
  with enc show ?thesis by blast
qed

lemma demo_text_well_formed: "well_formed [0x41, 0xE9, 0x20AC, 0xD83D, 0xDE00]"
  by (simp add: is_high_def is_low_def)

lemma lone_surrogate_bytes: "utf8_encode [0xD800] = [byte 239, byte 191, byte 189]"
  by (simp add: is_high_def utf8_3_def)

lemma replacement_character: "utf8_decode [byte 239, byte 191, byte 189] = [0xFFFD]"
  using decode_3 [of 65533 "[]"]
  by (simp add: utf8_3_def is_high_def is_low_def)

text \<open>
  Claim C5, amended. With an authenticated cipher whose decryption inverts its encryption
  and whose tag has 16 bytes, \<open>decryptPII\<close> returns the plaintext \<open>encryptPII\<close>
  was given, for every non-empty plaintext that is well-formed UTF-16 (every surrogate is
  half of a pair), every random source and every key selection: a user id (derived key),
  none or the empty one (master key).
\<close>

theorem decryptPII_encryptPII_well_formed:
  assumes inv: "\<forall>k iv p. gcm_decrypt L k iv (snd (gcm_encrypt L k iv p)) (fst (gcm_encrypt L k iv p)) = Some p"
    and tag: "\<forall>k iv p. length (snd (gcm_encrypt L k iv p)) = 16"
    and nonempty: "data \<noteq> []"
    and wf: "well_formed data"
  shows "\<exists>buf. fst (encryptPII L masterKey r data uid) = Inr buf
           \<and> decryptPII L masterKey buf uid = Inr data"
  using decryptPII_encryptPII_decodes [OF inv tag nonempty, of masterKey r uid]
  by (simp only: utf8_round_trip [OF wf])

theorem decryptPII_encryptPII_well_formed_witness:
  "(\<forall>k iv p. gcm_decrypt demo_lib k iv (snd (gcm_encrypt demo_lib k iv p))
                 (fst (gcm_encrypt demo_lib k iv p)) = Some p)
   \<and> (\<forall>k iv p. length (snd (gcm_encrypt demo_lib k iv p)) = 16)
   \<and> [0x41, 0xE9, 0x20AC, 0xD83D, 0xDE00] \<noteq> ([] :: jsstring)
   \<and> well_formed [0x41, 0xE9, 0x20AC, 0xD83D, 0xDE00]
   \<and> (\<exists>buf. fst (encryptPII demo_lib demo_key demo_rng [0x41, 0xE9, 0x20AC, 0xD83D, 0xDE00]
                      (Some [0x75, 0x37])) = Inr buf
         \<and> decryptPII demo_lib demo_key buf (Some [0x75, 0x37])
             = Inr [0x41, 0xE9, 0x20AC, 0xD83D, 0xDE00])
   \<and> (\<exists>buf. fst (encryptPII demo_lib demo_key demo_rng [0x41, 0xE9, 0x20AC, 0xD83D, 0xDE00] None)
               = Inr buf
         \<and> decryptPII demo_lib demo_key buf None = Inr [0x41, 0xE9, 0x20AC, 0xD83D, 0xDE00])"
proof -
  have inv: "\<forall>k iv p. gcm_decrypt demo_lib k iv (snd (gcm_encrypt demo_lib k iv p))
                 (fst (gcm_encrypt demo_lib k iv p)) = Some p"
    by (simp add: demo_lib_def)
  have tag: "\<forall>k iv p. length (snd (gcm_encrypt demo_lib k iv p)) = 16"
    by (simp add: demo_lib_def length_demo_pad)
  have ne: "[0x41, 0xE9, 0x20AC, 0xD83D, 0xDE00] \<noteq> ([] :: jsstring)" by simp
  note T = decryptPII_encryptPII_well_formed [OF inv tag ne demo_text_well_formed]
  from inv tag ne demo_text_well_formed
    T [of demo_key demo_rng "Some [0x75, 0x37]"] T [of demo_key demo_rng None]
  show ?thesis by (intro conjI)
qed

text \<open>
  Against claim C5 as stated: the plaintext of the one code unit \<^verbatim>\<open>D800\<close>, a surrogate
  without its partner, is not empty; it is encrypted as the three bytes of U+FFFD, and
  decryption returns U+FFFD, another string.
\<close>

theorem decryptPII_encryptPII_lone_surrogate:
  "fst (encryptPII demo_lib demo_key demo_rng [0xD800] None)
     = Inr (''abcdefghijklmnopabcdefghijklmnop'' @ [byte 189, byte 191, byte 239])
   \<and> decryptPII demo_lib demo_key
        (''abcdefghijklmnopabcdefghijklmnop'' @ [byte 189, byte 191, byte 239]) None
     = Inr [0xFFFD]
   \<and> [0xFFFD] \<noteq> ([0xD800] :: jsstring)"
proof -
  have enc: "fst (encryptPII demo_lib demo_key demo_rng [0xD800] None)
     = Inr (''abcdefghijklmnopabcdefghijklmnop'' @ [byte 189, byte 191, byte 239])"
    by (simp add: encryptPII_def Let_def lone_surrogate_bytes demo_lib_def demo_pad_def
        split_def demo_iv del: utf8_encode.simps)
  have dec: "decryptPII demo_lib demo_key
        (''abcdefghijklmnopabcdefghijklmnop'' @ [byte 189, byte 191, byte 239]) None
     = Inr [0xFFFD]"
    by (simp add: decryptPII_def Let_def demo_lib_def demo_pad_def replacement_character
        del: utf8_decode.simps)
  from enc dec show ?thesis by simp
qed


section \<open>Session tokens\<close>

text \<open>
  Claim C1. The claim is that the service's own unexpired access tokens pass its own
  verification. The code does the opposite: \<open>generateAccessToken\<close> signs without the
  \<^verbatim>\<open>issuer\<close> and \<^verbatim>\<open>audience\<close> options, so the token has no \<^verbatim>\<open>iss\<close> and \<^verbatim>\<open>aud\<close>
  claims, while \<open>verifyAccessToken\<close> requires both. Every token the service issues is
  refused by \<open>verifyAccessToken\<close> at every time, and before its expiry with
  \<^verbatim>\<open>Invalid token\<close>.
\<close>

theorem generateAccessToken_rejected_by_verifyAccessToken:
  assumes gen: "generateAccessToken L cfg now payload = Inr token"
  shows "(verifyAccessToken L cfg now' token = Inl (Error ''Invalid token'')
          \<or> verifyAccessToken L cfg now' token = Inl (Error ''Token expired''))
       \<and> (now' div 1000 < now div 1000 + JWT_ACCESS_EXPIRY cfg \<longrightarrow>
            verifyAccessToken L cfg now' token = Inl (Error ''Invalid token''))"
proof -
  let ?claims = "[(''userId'', JStr (userId payload)), (''email'', JStr (email payload)),
                  (''role'', JStr (role payload)), (''iat'', JNum (now div 1000)),
                  (''exp'', JNum (now div 1000 + JWT_ACCESS_EXPIRY cfg))]"
  from gen have secret: "JWT_ACCESS_SECRET cfg \<noteq> []"
    by (auto simp: generateAccessToken_def jwt_sign_def split: if_splits)
  with gen have token: "token = Jws ''HS256'' ?claims
      (hmac_sha256 L (JWT_ACCESS_SECRET cfg) (jws_signing_input L ''HS256'' (JObj ?claims)))"
    by (auto simp: generateAccessToken_def jwt_sign_def Let_def)
  show ?thesis
    using secret
    by (simp add: token verifyAccessToken_def jwt_verify_def audience_matches_def)
qed

theorem generateAccessToken_rejected_witness:
  "generateAccessToken demo_lib demo_config 5000
       \<lparr>userId = ''u1'', email = ''asha@example.org'', role = ''ADMIN''\<rparr>
     = Inr (Jws ''HS256''
             [(''userId'', JStr ''u1''), (''email'', JStr ''asha@example.org''),
              (''role'', JStr ''ADMIN''), (''iat'', JNum 5), (''exp'', JNum 905)]
             ''HS256.userId=Su1;email=Sasha@exa'')
   \<and> verifyAccessToken demo_lib demo_config 6000
       (Jws ''HS256''
             [(''userId'', JStr ''u1''), (''email'', JStr ''asha@example.org''),
              (''role'', JStr ''ADMIN''), (''iat'', JNum 5), (''exp'', JNum 905)]
             ''HS256.userId=Su1;email=Sasha@exa'')
     = Inl (Error ''Invalid token'')"
proof -
  have gen: "generateAccessToken demo_lib demo_config 5000
       \<lparr>userId = ''u1'', email = ''asha@example.org'', role = ''ADMIN''\<rparr>
     = Inr (Jws ''HS256''
             [(''userId'', JStr ''u1''), (''email'', JStr ''asha@example.org''),
              (''role'', JStr ''ADMIN''), (''iat'', JNum 5), (''exp'', JNum 905)]
             ''HS256.userId=Su1;email=Sasha@exa'')"
    by (simp add: generateAccessToken_def jwt_sign_def Let_def)
      (simp add: demo_lib_def demo_config_def demo_pad_def demo_stringify_def demo_value_def)
  have before: "(6000::int) div 1000 < 5000 div 1000 + JWT_ACCESS_EXPIRY demo_config"
    by (simp add: demo_config_def)
  from generateAccessToken_rejected_by_verifyAccessToken [OF gen, of 6000] before gen
  show ?thesis by blast
qed

section \<open>Consent\<close>

text \<open>
  A token the service issues for a grant verifies against the stored grant while neither
  the token nor the grant has expired and the required scopes are granted.
\<close>

lemma generateConsentToken_verifies:
  assumes gen: "generateConsentToken L secret db newId now patientId grantedTo scopes expiryMinutes
                  = (Inr (token, consentId), db1)"
    and sig: "\<forall>k m. hmac_sha256 L k m \<noteq> []"
    and t1: "now' div 1000 < now div 1000 + expiryMinutes * 60"
    and t2: "now' \<le> now + expiryMinutes * 60 * 1000"
    and scopes: "set requiredScopes \<subseteq> set scopes"
  shows "verifyConsentToken L secret db1 now' token requiredScopes
           = ConsentValid consentId patientId grantedTo scopes"
proof -
  let ?claims = "[(''consentId'', JStr newId), (''patientId'', JStr patientId),
       (''grantedTo'', JStr grantedTo),
       (''scopes'', JArr (map (\<lambda>s. JStr (scope_name s)) scopes)),
       (''expiresAt'', JStr (date_toISOString L (now + expiryMinutes * 60 * 1000))),
       (''iat'', JNum (now div 1000)), (''exp'', JNum (now div 1000 + expiryMinutes * 60)),
       (''aud'', JStr ''pharmalync-consent''), (''iss'', JStr ''pharmalync'')]"
  from gen have secret: "secret \<noteq> []"
    by (auto simp: generateConsentToken_def jwt_sign_def Let_def split: if_splits)
  with gen have token: "token = Jws ''HS256'' ?claims
        (hmac_sha256 L secret (jws_signing_input L ''HS256'' (JObj ?claims)))"
    and cid: "consentId = newId"
    and db1: "db1 = db(newId \<mapsto> \<lparr>c_id = newId, c_patientId = patientId,
        c_grantedTo = grantedTo, c_scopes = scopes,
        c_expiresAt = now + expiryMinutes * 60 * 1000, c_revoked = False\<rparr>)"
    by (auto simp: generateConsentToken_def jwt_sign_def Let_def)
  have all: "list_all (\<lambda>scope. scope \<in> set scopes) requiredScopes"
    using scopes by (auto simp: list_all_iff)
  show ?thesis
    using secret sig t1 t2 all
    by (simp add: token cid db1 verifyConsentToken_def jwt_verify_def audience_matches_def)
qed


text \<open>
  Claim C2. Once \<open>revokeConsent\<close> has marked a grant revoked, \<open>verifyConsentToken\<close> on
  any token that passes the token check (signature, algorithm, issuer and audience valid,
  expiry not elapsed) and names that grant answers invalid with the reason
  \<^verbatim>\<open>Consent has been revoked\<close>, whatever scopes are required: the answer comes from the
  stored row.
\<close>

theorem verifyConsentToken_after_revokeConsent:
  assumes ver: "jwt_verify L token secret
                  \<lparr>v_issuer = Some ''pharmalync'', v_audience = Some ''pharmalync-consent'',
                   algorithms = [''HS256'']\<rparr> now = Inr decoded"
    and cid: "map_of decoded ''consentId'' = Some (JStr consentId)"
    and rev: "revokeConsent db consentId = Inr db'"
  shows "verifyConsentToken L secret db' now token requiredScopes
           = ConsentInvalid ''Consent has been revoked''"
proof -
  from rev obtain row where row: "db consentId = Some row"
    and db': "db' = db(consentId \<mapsto> row\<lparr>c_revoked := True\<rparr>)"
    by (auto simp: revokeConsent_def split: option.splits)
  show ?thesis
    using ver cid by (simp add: verifyConsentToken_def db')
qed

theorem verifyConsentToken_after_revokeConsent_witness:
  "\<exists>token db1 db2.
      generateConsentToken demo_lib ''consent-secret'' Map.empty ''c1'' 5000 ''p1'' ''d1''
          [VIEW_AADHAAR] 60 = (Inr (token, ''c1''), db1)
    \<and> jwt_verify demo_lib token ''consent-secret''
          \<lparr>v_issuer = Some ''pharmalync'', v_audience = Some ''pharmalync-consent'',
           algorithms = [''HS256'']\<rparr> 6000
        = Inr [(''consentId'', JStr ''c1''), (''patientId'', JStr ''p1''),
               (''grantedTo'', JStr ''d1''), (''scopes'', JArr [JStr ''VIEW_AADHAAR'']),
               (''expiresAt'', JStr ''00370208''), (''iat'', JNum 5), (''exp'', JNum 3605),
               (''aud'', JStr ''pharmalync-consent''), (''iss'', JStr ''pharmalync'')]
    \<and> verifyConsentToken demo_lib ''consent-secret'' db1 6000 token [VIEW_AADHAAR]
        = ConsentValid ''c1'' ''p1'' ''d1'' [VIEW_AADHAAR]
    \<and> revokeConsent db1 ''c1'' = Inr db2
    \<and> verifyConsentToken demo_lib ''consent-secret'' db2 6000 token [VIEW_AADHAAR]
        = ConsentInvalid ''Consent has been revoked''"
proof -
  let ?claims = "[(''consentId'', JStr ''c1''), (''patientId'', JStr ''p1''),
               (''grantedTo'', JStr ''d1''), (''scopes'', JArr [JStr ''VIEW_AADHAAR'']),
               (''expiresAt'', JStr ''00370208''), (''iat'', JNum 5), (''exp'', JNum 3605),
               (''aud'', JStr ''pharmalync-consent''), (''iss'', JStr ''pharmalync'')]"
  let ?token = "Jws ''HS256'' ?claims ''HS256.consentId=Sc1;patientId=Sp''"
  let ?row = "\<lparr>c_id = ''c1'', c_patientId = ''p1'', c_grantedTo = ''d1'',
               c_scopes = [VIEW_AADHAAR], c_expiresAt = 3605000, c_revoked = False\<rparr>"
  let ?db1 = "[''c1'' \<mapsto> ?row]"
  let ?db2 = "?db1(''c1'' \<mapsto> ?row\<lparr>c_revoked := True\<rparr>)"
  have date: "date_toISOString demo_lib 3605000 = ''00370208''"
    by (simp add: demo_lib_def hex_digit_def)
  have tok: "fst (generateConsentToken demo_lib ''consent-secret'' Map.empty ''c1'' 5000 ''p1''
          ''d1'' [VIEW_AADHAAR] 60) = Inr (?token, ''c1'')"
    by (simp add: generateConsentToken_def jwt_sign_def Let_def date)
      (simp add: demo_lib_def demo_pad_def demo_stringify_def demo_value_def)
  have db: "snd (generateConsentToken demo_lib ''consent-secret'' Map.empty ''c1'' 5000 ''p1''
          ''d1'' [VIEW_AADHAAR] 60) = ?db1"
    by (simp add: generateConsentToken_def Let_def date split: sum.splits)
  have gen: "generateConsentToken demo_lib ''consent-secret'' Map.empty ''c1'' 5000 ''p1'' ''d1''
          [VIEW_AADHAAR] 60 = (Inr (?token, ''c1''), ?db1)"
    using tok db by (metis prod.collapse)
  have ver: "jwt_verify demo_lib ?token ''consent-secret''
          \<lparr>v_issuer = Some ''pharmalync'', v_audience = Some ''pharmalync-consent'',
           algorithms = [''HS256'']\<rparr> 6000 = Inr ?claims"
    by (simp add: jwt_verify_def audience_matches_def)
      (simp add: demo_lib_def demo_pad_def demo_stringify_def demo_value_def)
  have cid: "map_of ?claims ''consentId'' = Some (JStr ''c1'')" by simp
  have rev: "revokeConsent ?db1 ''c1'' = Inr ?db2"
    by (simp add: revokeConsent_def)
  have valid: "verifyConsentToken demo_lib ''consent-secret'' ?db1 6000 ?token [VIEW_AADHAAR]
        = ConsentValid ''c1'' ''p1'' ''d1'' [VIEW_AADHAAR]"
    using ver by (simp add: verifyConsentToken_def)
  from verifyConsentToken_after_revokeConsent [OF ver cid rev, of "[VIEW_AADHAAR]"]
    gen ver valid rev
  show ?thesis by blast
qed

section \<open>Audit trail\<close>

lemma verifyAudit_never_throws: "\<exists>h. verifyAudit bc auditId = Inr h"
  by (auto simp: verifyAudit_def split: option.splits sum.splits)

lemma hashAuditData_nonempty:
  "\<forall>m. length (sha256 L m) = 32 \<Longrightarrow> hashAuditData L ad \<noteq> []"
  by (simp add: hashAuditData_def Let_def toHex_eq_Nil) (metis length_0_conv zero_neq_numeral)

text \<open>A ledger that answers with another hash than the local one: the tampering result.\<close>

lemma verifyAuditIntegrity_mismatch:
  assumes row: "getAuditLog db auditId = Some row"
    and anchored: "\<not> falsy (blockchainTxHash row)"
    and ledger: "pharmalyncAudit bc = Some c" "contract_verifyAudit c auditId = Inr (a, h, t)"
    and differs: "h \<noteq> hashAuditData L (row_data row)"
  shows "verifyAuditIntegrity L bc db auditId =
           \<lparr>valid = False, localHash = hashAuditData L (row_data row),
            blockchainHash = Some h,
            error = Some ''Hash mismatch - data may be tampered''\<rparr>"
proof -
  from ledger have "verifyAudit bc auditId = Inr h"
    by (simp add: verifyAudit_def)
  with row anchored differs show ?thesis
    by (auto simp: verifyAuditIntegrity_def Let_def row_data_def)
qed

text \<open>The handler for a ledger that cannot be reached is never entered.\<close>

lemma verifyAuditIntegrity_never_reports_unreachable:
  "error (verifyAuditIntegrity L bc db auditId)
     \<noteq> Some (''Blockchain verification failed: '' @ exn_toString e)"
proof -
  obtain h where "verifyAudit bc auditId = Inr h"
    using verifyAudit_never_throws by blast
  then show ?thesis
    by (simp add: verifyAuditIntegrity_def Let_def split: option.splits)
qed

text \<open>
  Claim C6. The claim is that an unreachable ledger gives an error distinct from the
  tampering signal. The code does not: \<open>verifyAudit\<close> turns a missing configuration and
  every failed contract call into the empty hash, so for an entry with a ledger reference
  \<open>verifyAuditIntegrity\<close> compares the local hash with the empty one and reports
  \<^verbatim>\<open>Hash mismatch - data may be tampered\<close>, the result of a differing stored hash.
\<close>

theorem verifyAuditIntegrity_unreachable_is_mismatch:
  assumes row: "getAuditLog db auditId = Some row"
    and anchored: "\<not> falsy (blockchainTxHash row)"
    and dig: "\<forall>m. length (sha256 L m) = 32"
    and unreachable: "pharmalyncAudit bc = None
        \<or> (\<exists>c e. pharmalyncAudit bc = Some c \<and> contract_verifyAudit c auditId = Inl e)"
  shows "verifyAuditIntegrity L bc db auditId =
           \<lparr>valid = False, localHash = hashAuditData L (row_data row),
            blockchainHash = Some [],
            error = Some ''Hash mismatch - data may be tampered''\<rparr>"
proof -
  have ne: "hashAuditData L (row_data row) \<noteq> []"
    using dig by (rule hashAuditData_nonempty)
  from unreachable have va: "verifyAudit bc auditId = Inr []"
    by (auto simp: verifyAudit_def)
  show ?thesis
    using row anchored ne va
    by (simp add: verifyAuditIntegrity_def Let_def row_data_def)
qed

theorem verifyAuditIntegrity_unreachable_witness:
  "getAuditLog
      [''a1'' \<mapsto> \<lparr>log_id = ''a1'', log_userId = ''u1'', log_action = ''VIEW_AADHAAR'',
                   log_resourceType = ''PATIENT'', log_resourceId = Some ''p1'',
                   log_metadata = None, log_timestamp = 5000,
                   blockchainTxHash = Some ''0xabc''\<rparr>] ''a1''
     = Some \<lparr>log_id = ''a1'', log_userId = ''u1'', log_action = ''VIEW_AADHAAR'',
             log_resourceType = ''PATIENT'', log_resourceId = Some ''p1'',
             log_metadata = None, log_timestamp = 5000, blockchainTxHash = Some ''0xabc''\<rparr>
   \<and> \<not> falsy (Some ''0xabc'')
   \<and> (\<forall>m. length (sha256 demo_lib m) = 32)
   \<and> (\<exists>c e. pharmalyncAudit demo_unreachable = Some c \<and> contract_verifyAudit c ''a1'' = Inl e)
   \<and> valid (verifyAuditIntegrity demo_lib demo_unreachable
        [''a1'' \<mapsto> \<lparr>log_id = ''a1'', log_userId = ''u1'', log_action = ''VIEW_AADHAAR'',
                     log_resourceType = ''PATIENT'', log_resourceId = Some ''p1'',
                     log_metadata = None, log_timestamp = 5000,
                     blockchainTxHash = Some ''0xabc''\<rparr>] ''a1'') = False
   \<and> error (verifyAuditIntegrity demo_lib demo_unreachable
        [''a1'' \<mapsto> \<lparr>log_id = ''a1'', log_userId = ''u1'', log_action = ''VIEW_AADHAAR'',
                     log_resourceType = ''PATIENT'', log_resourceId = Some ''p1'',
                     log_metadata = None, log_timestamp = 5000,
                     blockchainTxHash = Some ''0xabc''\<rparr>] ''a1'')
       = Some ''Hash mismatch - data may be tampered''
   \<and> pharmalyncAudit demo_unconfigured = None
   \<and> error (verifyAuditIntegrity demo_lib demo_unconfigured
        [''a1'' \<mapsto> \<lparr>log_id = ''a1'', log_userId = ''u1'', log_action = ''VIEW_AADHAAR'',
                     log_resourceType = ''PATIENT'', log_resourceId = Some ''p1'',
                     log_metadata = None, log_timestamp = 5000,
                     blockchainTxHash = Some ''0xabc''\<rparr>] ''a1'')
       = Some ''Hash mismatch - data may be tampered''"
proof -
  let ?row = "\<lparr>log_id = ''a1'', log_userId = ''u1'', log_action = ''VIEW_AADHAAR'',
                log_resourceType = ''PATIENT'', log_resourceId = Some ''p1'',
                log_metadata = None, log_timestamp = 5000, blockchainTxHash = Some ''0xabc''\<rparr>"
  have row: "getAuditLog [''a1'' \<mapsto> ?row] ''a1'' = Some ?row"
    by (simp add: getAuditLog_def)
  have anchored: "\<not> falsy (blockchainTxHash ?row)" by simp
  have dig: "\<forall>m. length (sha256 demo_lib m) = 32"
    by (simp add: demo_lib_def length_demo_pad)
  have down: "\<exists>c e. pharmalyncAudit demo_unreachable = Some c \<and> contract_verifyAudit c ''a1'' = Inl e"
    by (simp add: demo_unreachable_def)
  then have unreachable: "pharmalyncAudit demo_unreachable = None
        \<or> (\<exists>c e. pharmalyncAudit demo_unreachable = Some c \<and> contract_verifyAudit c ''a1'' = Inl e)"
    by blast
  have off: "pharmalyncAudit demo_unconfigured = None"
    by (simp add: demo_unconfigured_def)
  then have unconfigured: "pharmalyncAudit demo_unconfigured = None
        \<or> (\<exists>c e. pharmalyncAudit demo_unconfigured = Some c \<and> contract_verifyAudit c ''a1'' = Inl e)"
    by blast
  from verifyAuditIntegrity_unreachable_is_mismatch [OF row anchored dig unreachable]
    verifyAuditIntegrity_unreachable_is_mismatch [OF row anchored dig unconfigured]
    row dig down off
  show ?thesis by simp
qed

text \<open>
  Claim C7. \<open>logAudit\<close> creates the local entry and returns its id before, and whatever,
  the ledger answers: the entry is retrievable under the returned id, with no ledger
  reference; a critical action (and only that) starts the ledger call; when the ledger
  rejects every submission the started call, run to its end, leaves the store as it was;
  and on the entry, before or after that, \<open>verifyAuditIntegrity\<close> answers valid with the
  local hash and the note \<^verbatim>\<open>Not logged to blockchain\<close>.
\<close>

theorem logAudit_entry_survives_ledger_failure:
  assumes fails: "\<forall>a h t. \<exists>e. logAuditToBlockchain bc newId a h t = Inl e"
  shows "case logAudit db newId timestamp params of
           (auditId, db1, started) \<Rightarrow>
             auditId = newId
           \<and> getAuditLog db1 auditId =
               Some \<lparr>log_id = newId, log_userId = p_userId params, log_action = p_action params,
                     log_resourceType = p_resourceType params,
                     log_resourceId = p_resourceId params, log_metadata = p_metadata params,
                     log_timestamp = timestamp, blockchainTxHash = None\<rparr>
           \<and> (isCriticalAction (p_action params) \<longleftrightarrow> started \<noteq> None)
           \<and> settle_critical L bc db1 started = db1
           \<and> verifyAuditIntegrity L bc db1 auditId =
               \<lparr>valid = True,
                localHash = hashAuditData L
                  \<lparr>d_userId = p_userId params, d_action = p_action params,
                   d_resourceType = p_resourceType params, d_resourceId = p_resourceId params,
                   d_timestamp = timestamp\<rparr>,
                blockchainHash = None, error = Some ''Not logged to blockchain''\<rparr>
           \<and> verifyAuditIntegrity L bc (settle_critical L bc db1 started) auditId =
               verifyAuditIntegrity L bc db1 auditId"
proof -
  have settle: "settle_critical L bc d (Some (newId, ad)) = d" for d ad
  proof -
    from fails obtain e where
      "logAuditToBlockchain bc newId (d_action ad) (hashAuditData L ad) (d_timestamp ad) = Inl e"
      by blast
    then show ?thesis by (simp add: settle_critical_def logCriticalAudit_def Let_def)
  qed
  have none: "settle_critical L bc d None = d" for d
    by (simp add: settle_critical_def)
  show ?thesis
    by (simp add: logAudit_def Let_def settle none getAuditLog_def verifyAuditIntegrity_def)
qed

theorem logAudit_entry_survives_witness:
  "(\<forall>a h t. \<exists>e. logAuditToBlockchain demo_unreachable ''a1'' a h t = Inl e)
   \<and> isCriticalAction (p_action demo_params)
   \<and> fst (logAudit Map.empty ''a1'' 5000 demo_params) = ''a1''
   \<and> getAuditLog (fst (snd (logAudit Map.empty ''a1'' 5000 demo_params))) ''a1''
       = Some \<lparr>log_id = ''a1'', log_userId = ''u1'', log_action = ''VIEW_AADHAAR'',
               log_resourceType = ''PATIENT'', log_resourceId = Some ''p1'',
               log_metadata = None, log_timestamp = 5000, blockchainTxHash = None\<rparr>
   \<and> snd (snd (logAudit Map.empty ''a1'' 5000 demo_params)) \<noteq> None
   \<and> valid (verifyAuditIntegrity demo_lib demo_unreachable
        (settle_critical demo_lib demo_unreachable
           (fst (snd (logAudit Map.empty ''a1'' 5000 demo_params)))
           (snd (snd (logAudit Map.empty ''a1'' 5000 demo_params)))) ''a1'')
   \<and> error (verifyAuditIntegrity demo_lib demo_unreachable
        (settle_critical demo_lib demo_unreachable
           (fst (snd (logAudit Map.empty ''a1'' 5000 demo_params)))
           (snd (snd (logAudit Map.empty ''a1'' 5000 demo_params)))) ''a1'')
       = Some ''Not logged to blockchain''"
proof -
  have fails: "\<forall>a h t. \<exists>e. logAuditToBlockchain demo_unreachable ''a1'' a h t = Inl e"
    by (simp add: logAuditToBlockchain_def demo_unreachable_def)
  have crit: "isCriticalAction (p_action demo_params)"
    by (simp add: isCriticalAction_def CriticalAction_def demo_params_def)
  from logAudit_entry_survives_ledger_failure
         [OF fails, where db = Map.empty and timestamp = 5000 and params = demo_params
            and L = demo_lib] fails crit
  show ?thesis
    by (simp add: demo_params_def split: prod.splits)
qed

section \<open>QR tokens\<close>

lemma verifyToken_try_garbage:
  "verifyToken_try demo_lib demo_key ''not a token'' ''MEDICINE''
     = Inl (SyntaxError ''Unexpected token in JSON'')"
  by (simp add: verifyToken_try_def Let_def demo_lib_def demo_parse_def)

lemma demo_parse_forged: "demo_parse (''iv=S00;tag=S00;encrypted=S00;signature=S'' @ replicate 128 (CHR ''0'') @ '';'')
  = Some (JObj [(''iv'', JStr ''00''), (''tag'', JStr ''00''), (''encrypted'', JStr ''00''), (''signature'', JStr (replicate 128 (CHR ''0'')))])"
  by (simp add: demo_parse_def demo_field_def Let_def split_on_append split_on_no_sep)

lemma char_of_0_neq: "char_of (0::nat) \<noteq> CHR ''0''"
proof
  assume "char_of (0::nat) = CHR ''0''"
  then have "(of_char (char_of (0::nat)) :: nat) = of_char (CHR ''0'')" by simp
  then show False by simp
qed

lemma hv0: "hex_val (CHR ''0'') = Some 0" by (simp add: hex_val_def)

lemma fromHex_zeros: "fromHex (replicate (2 * n) (CHR ''0'')) = replicate n (char_of (0::nat))"
  by (induction n) (simp_all add: hv0)

lemma verifyToken_try_forged: "verifyToken_try demo_lib demo_key
        (''iv=S00;tag=S00;encrypted=S00;signature=S'' @ replicate 128 (CHR ''0'') @ '';'')
        ''MEDICINE''
     = Inl (Error ''SECURITY_ALERT: QR Token signature is invalid or tampered'')"
proof -
  have z: "fromHex (replicate 128 (CHR ''0'')) = replicate 64 (char_of (0::nat))"
    using fromHex_zeros [of 64] by simp
  have k: "hmac_sha512 demo_lib k m = demo_pad 64 (m @ k)" for k m
    by (simp add: demo_lib_def)
  have l: "length (demo_pad 64 x) = 64" for x by (rule length_demo_pad)
  have ne: "replicate 64 (char_of (0::nat)) \<noteq> demo_pad 64 (fromHex ''00'' @ fromHex ''00'' @ ''00'' @ k)" for k
  proof
    assume "replicate 64 (char_of (0::nat)) = demo_pad 64 (fromHex ''00'' @ fromHex ''00'' @ ''00'' @ k)"
    then have "replicate 64 (char_of (0::nat)) ! 2
                 = demo_pad 64 (fromHex ''00'' @ fromHex ''00'' @ ''00'' @ k) ! 2"
      by simp
    then show False by (simp add: demo_pad_def hv0 char_of_0_neq)
  qed
  have pp: "json_parse demo_lib (base64url_decode demo_lib (''iv=S00;tag=S00;encrypted=S00;signature=S'' @ replicate 128 (CHR ''0'') @ '';''))
   = Some (JObj [(''iv'', JStr ''00''), (''tag'', JStr ''00''), (''encrypted'', JStr ''00''), (''signature'', JStr (replicate 128 (CHR ''0'')))])"
    using demo_parse_forged by (simp add: demo_lib_def)
  show ?thesis
    unfolding verifyToken_try_def Let_def pp
    using ne
    by (simp add: Buffer_from_hex_def timingSafeEqual_def fromHex_toHex z k l del: fromHex.simps)
qed


lemma verifyToken_catch:
  "(case verifyToken_try L masterKey token resourceType of
      Inr data \<Rightarrow> verifyToken L masterKey token resourceType = (Inr data, [])
    | Inl e \<Rightarrow>
        verifyToken L masterKey token resourceType =
          (Inl (Error ''INVALID_QR: Unable to verify authenticity of the scanned code''),
           [''QR Verification Failed: '' @ message e]))"
  by (simp add: verifyToken_def split: sum.splits)

lemma verifyToken_try_unparsed:
  "json_parse L (base64url_decode L token) = None \<Longrightarrow>
     verifyToken_try L masterKey token resourceType = Inl (SyntaxError ''Unexpected token in JSON'')"
  by (simp add: verifyToken_try_def Let_def)

lemma verifyToken_try_mismatch:
  assumes "json_parse L (base64url_decode L token) = Some (JObj ps)"
    and "map_of ps ''iv'' = Some (JStr iv)" and "map_of ps ''tag'' = Some (JStr tag)"
    and "map_of ps ''encrypted'' = Some (JStr encrypted)"
    and "map_of ps ''signature'' = Some (JStr signature)"
    and "length (fromHex signature)
            = length (hmac_sha512 L (hmac_sha256 L masterKey (''QR_SIGN_'' @ resourceType))
                        (fromHex iv @ fromHex tag @ encrypted))"
    and "fromHex signature
            \<noteq> hmac_sha512 L (hmac_sha256 L masterKey (''QR_SIGN_'' @ resourceType))
                        (fromHex iv @ fromHex tag @ encrypted)"
  shows "verifyToken_try L masterKey token resourceType
              = Inl (Error ''SECURITY_ALERT: QR Token signature is invalid or tampered'')"
  using assms
  by (simp add: verifyToken_try_def Let_def Buffer_from_hex_def timingSafeEqual_def fromHex_toHex
      del: fromHex.simps)

text \<open>
  Claim C3, amended. Every failure of \<open>verifyToken\<close> is thrown as the one error
  \<^verbatim>\<open>INVALID_QR: Unable to verify authenticity of the scanned code\<close>; what failed is only
  written to the console: the parser's error for text that does not parse, the
  \<^verbatim>\<open>SECURITY_ALERT\<close> message for a package whose signature has the length of the
  recomputed one and differs from it.
\<close>

theorem verifyToken_single_error:
  "(case verifyToken_try L masterKey token resourceType of
      Inr data \<Rightarrow> verifyToken L masterKey token resourceType = (Inr data, [])
    | Inl e \<Rightarrow>
        verifyToken L masterKey token resourceType =
          (Inl (Error ''INVALID_QR: Unable to verify authenticity of the scanned code''),
           [''QR Verification Failed: '' @ message e]))
   \<and> (json_parse L (base64url_decode L token) = None \<longrightarrow>
        verifyToken_try L masterKey token resourceType
          = Inl (SyntaxError ''Unexpected token in JSON''))
   \<and> (\<forall>ps iv tag encrypted signature.
        json_parse L (base64url_decode L token) = Some (JObj ps)
        \<and> map_of ps ''iv'' = Some (JStr iv) \<and> map_of ps ''tag'' = Some (JStr tag)
        \<and> map_of ps ''encrypted'' = Some (JStr encrypted)
        \<and> map_of ps ''signature'' = Some (JStr signature)
        \<and> length (fromHex signature)
            = length (hmac_sha512 L (hmac_sha256 L masterKey (''QR_SIGN_'' @ resourceType))
                        (fromHex iv @ fromHex tag @ encrypted))
        \<and> fromHex signature
            \<noteq> hmac_sha512 L (hmac_sha256 L masterKey (''QR_SIGN_'' @ resourceType))
                        (fromHex iv @ fromHex tag @ encrypted)
        \<longrightarrow> verifyToken_try L masterKey token resourceType
              = Inl (Error ''SECURITY_ALERT: QR Token signature is invalid or tampered''))"
  using verifyToken_catch [of L masterKey token resourceType]
    verifyToken_try_unparsed [of L token masterKey resourceType]
    verifyToken_try_mismatch [of L token _ _ _ _ _ masterKey resourceType]
  by blast

theorem verifyToken_single_error_witness:
  "json_parse demo_lib (base64url_decode demo_lib ''not a token'') = None
   \<and> verifyToken demo_lib demo_key ''not a token'' ''MEDICINE''
     = (Inl (Error ''INVALID_QR: Unable to verify authenticity of the scanned code''),
        [''QR Verification Failed: Unexpected token in JSON''])
   \<and> verifyToken demo_lib demo_key
        (''iv=S00;tag=S00;encrypted=S00;signature=S'' @ replicate 128 (CHR ''0'') @ '';'')
        ''MEDICINE''
     = (Inl (Error ''INVALID_QR: Unable to verify authenticity of the scanned code''),
        [''QR Verification Failed: SECURITY_ALERT: QR Token signature is invalid or tampered''])"
proof -
  have unparsed: "json_parse demo_lib (base64url_decode demo_lib ''not a token'') = None"
    by (simp add: demo_lib_def demo_parse_def)
  have garbage: "verifyToken demo_lib demo_key ''not a token'' ''MEDICINE''
     = (Inl (Error ''INVALID_QR: Unable to verify authenticity of the scanned code''),
        [''QR Verification Failed: '' @ message (SyntaxError ''Unexpected token in JSON'')])"
    using verifyToken_single_error [of demo_lib demo_key "''not a token''" "''MEDICINE''"]
    unfolding verifyToken_try_garbage by simp
  have forged: "verifyToken demo_lib demo_key
        (''iv=S00;tag=S00;encrypted=S00;signature=S'' @ replicate 128 (CHR ''0'') @ '';'')
        ''MEDICINE''
     = (Inl (Error ''INVALID_QR: Unable to verify authenticity of the scanned code''),
        [''QR Verification Failed: ''
           @ message (Error ''SECURITY_ALERT: QR Token signature is invalid or tampered'')])"
    using verifyToken_single_error [of demo_lib demo_key
      "''iv=S00;tag=S00;encrypted=S00;signature=S'' @ replicate 128 (CHR ''0'') @ '';''"
      "''MEDICINE''"]
    unfolding verifyToken_try_forged by simp
  from unparsed garbage forged show ?thesis by simp
qed

text \<open>
  Against claim C3 as stated: text that does not parse and a well-formed package with a
  wrong signature fail inside the \<^verbatim>\<open>try\<close> block with different errors, and the call
  throws the same error for both.
\<close>

theorem verifyToken_failures_same_error:
  "verifyToken_try demo_lib demo_key ''not a token'' ''MEDICINE''
     = Inl (SyntaxError ''Unexpected token in JSON'')
   \<and> verifyToken_try demo_lib demo_key
        (''iv=S00;tag=S00;encrypted=S00;signature=S'' @ replicate 128 (CHR ''0'') @ '';'')
        ''MEDICINE''
     = Inl (Error ''SECURITY_ALERT: QR Token signature is invalid or tampered'')
   \<and> fst (verifyToken demo_lib demo_key ''not a token'' ''MEDICINE'')
     = Inl (Error ''INVALID_QR: Unable to verify authenticity of the scanned code'')
   \<and> fst (verifyToken demo_lib demo_key
        (''iv=S00;tag=S00;encrypted=S00;signature=S'' @ replicate 128 (CHR ''0'') @ '';'')
        ''MEDICINE'')
     = Inl (Error ''INVALID_QR: Unable to verify authenticity of the scanned code'')"
  by (simp only: verifyToken_def verifyToken_try_garbage verifyToken_try_forged sum.case
      fst_conv simp_thms)


lemma generateSecureToken_package:
  "fst (generateSecureToken L masterKey r now data resourceType)
     = base64url_encode L (json_stringify L (qr_package L masterKey r now data resourceType))"
  by (simp add: generateSecureToken_def qr_package_def qr_payload_def Let_def split: prod.splits)

lemma map_of_set_prop: "map_of (set_prop k v ps) = (map_of ps)(k \<mapsto> v)"
  by (induction ps) (auto simp: fun_eq_iff)

lemma verifyToken_try_package:
  assumes inv: "\<forall>k iv p. gcm_decrypt L k iv (snd (gcm_encrypt L k iv p)) (fst (gcm_encrypt L k iv p)) = Some p"
    and b64: "\<forall>s. base64url_decode L (base64url_encode L s) = s"
    and payload_ok: "json_parse L (json_stringify L (qr_payload r now data)) = Some (qr_payload r now data)"
    and package_ok: "json_parse L (json_stringify L (qr_package L masterKey r now data resourceType))
                       = Some (qr_package L masterKey r now data resourceType)"
  shows "verifyToken_try L masterKey (fst (generateSecureToken L masterKey r now data resourceType))
           resourceType = Inr (qr_payload r now data)"
proof -
  define tokenKey where "tokenKey = hmac_sha256 L masterKey (''QR_TOKEN_'' @ resourceType)"
  define signKey where "signKey = hmac_sha256 L masterKey (''QR_SIGN_'' @ resourceType)"
  define iv where "iv = fst (randomBytes 12 (snd (randomBytes 16 r)))"
  define sealed where "sealed = gcm_encrypt L tokenKey iv (json_stringify L (qr_payload r now data))"
  have pkg: "qr_package L masterKey r now data resourceType =
      JObj [(''iv'', JStr (toHex iv)), (''tag'', JStr (toHex (snd sealed))),
            (''encrypted'', JStr (toHex (fst sealed))),
            (''signature'', JStr (toHex (hmac_sha512 L signKey
                (iv @ snd sealed @ toHex (fst sealed)))))]"
    by (simp add: qr_package_def Let_def tokenKey_def signKey_def iv_def sealed_def)
  have parsed: "json_parse L (base64url_decode L
        (fst (generateSecureToken L masterKey r now data resourceType))) =
      Some (JObj [(''iv'', JStr (toHex iv)), (''tag'', JStr (toHex (snd sealed))),
            (''encrypted'', JStr (toHex (fst sealed))),
            (''signature'', JStr (toHex (hmac_sha512 L signKey
                (iv @ snd sealed @ toHex (fst sealed)))))])"
    using package_ok b64 by (simp add: generateSecureToken_package pkg)
  have dec: "gcm_decrypt L tokenKey iv (snd sealed) (fst sealed)
               = Some (json_stringify L (qr_payload r now data))"
    using inv by (simp add: sealed_def)
  show ?thesis
    unfolding verifyToken_try_def Let_def parsed
    using dec payload_ok
    by (simp add: Buffer_from_hex_def timingSafeEqual_def fromHex_toHex tokenKey_def signKey_def
        del: fromHex.simps)
qed


lemma verifyToken_try_sound:
  assumes ok: "verifyToken_try L masterKey token resourceType = Inr data"
  shows "\<exists>parsed ivB tagB encrypted sigB plaintext.
      json_parse L (base64url_decode L token) = Some parsed
    \<and> Buffer_from_hex L (get_prop parsed ''iv'') = Inr ivB
    \<and> Buffer_from_hex L (get_prop parsed ''tag'') = Inr tagB
    \<and> get_prop parsed ''encrypted'' = Some (JStr encrypted)
    \<and> Buffer_from_hex L (get_prop parsed ''signature'') = Inr sigB
    \<and> sigB = hmac_sha512 L (hmac_sha256 L masterKey (''QR_SIGN_'' @ resourceType))
                 (ivB @ tagB @ encrypted)
    \<and> gcm_decrypt L (hmac_sha256 L masterKey (''QR_TOKEN_'' @ resourceType)) ivB tagB
          (fromHex encrypted) = Some plaintext
    \<and> json_parse L plaintext = Some data"
  using ok unfolding verifyToken_try_def Let_def timingSafeEqual_def fromHex_toHex
  by (simp split: option.splits json.splits sum.splits if_splits bool.splits)


lemma demo_gcm_inverts:
  "\<forall>k iv p. gcm_decrypt demo_lib k iv (snd (gcm_encrypt demo_lib k iv p))
      (fst (gcm_encrypt demo_lib k iv p)) = Some p"
  by (simp add: demo_lib_def)

lemma demo_base64url_inverts: "\<forall>s. base64url_decode demo_lib (base64url_encode demo_lib s) = s"
  by (simp add: demo_lib_def)

lemma demo_nonce: "toHex (fst (randomBytes 16 demo_rng)) = ''6162636465666768696a6b6c6d6e6f70''"
  by (simp add: randomBytes_def demo_rng_def hex_digit_def upt_rec)

lemma demo_payload_nonce:
  "qr_payload demo_rng 3 [(''nonce'', JStr ''abc'')]
     = JObj [(''nonce'', JStr ''6162636465666768696a6b6c6d6e6f70''), (''timestamp'', JNum 3)]"
  by (simp add: qr_payload_def demo_nonce)

lemma replicate_3: "replicate 3 x = [x, x, x]"
  by (simp add: numeral_3_eq_3)

lemma demo_payload_nonce_ok:
  "json_parse demo_lib (json_stringify demo_lib (qr_payload demo_rng 3 [(''nonce'', JStr ''abc'')]))
     = Some (qr_payload demo_rng 3 [(''nonce'', JStr ''abc'')])"
  unfolding demo_payload_nonce
  by (simp add: demo_lib_def demo_stringify_def demo_value_def demo_parse_def demo_field_def
      replicate_3)


lemma sep_notin_toHex: "\<not> is_hex c \<Longrightarrow> c \<notin> set (toHex bs)"
  using toHex_is_hex [of bs] by (auto simp: list_all_iff)

lemma demo_four_strings:
  assumes a: "CHR '';'' \<notin> set a" "CHR ''='' \<notin> set a"
    and b: "CHR '';'' \<notin> set b" "CHR ''='' \<notin> set b"
    and c: "CHR '';'' \<notin> set c" "CHR ''='' \<notin> set c"
    and d: "CHR '';'' \<notin> set d" "CHR ''='' \<notin> set d"
  shows "demo_parse (demo_stringify
           (JObj [(''iv'', JStr a), (''tag'', JStr b), (''encrypted'', JStr c),
                  (''signature'', JStr d)]))
         = Some (JObj [(''iv'', JStr a), (''tag'', JStr b), (''encrypted'', JStr c),
                       (''signature'', JStr d)])"
  using assms
  by (simp add: demo_parse_def demo_stringify_def demo_value_def demo_field_def
      split_on_append split_on_no_sep)

lemma demo_package_ok:
  "json_parse demo_lib (json_stringify demo_lib (qr_package demo_lib masterKey r now data rt))
     = Some (qr_package demo_lib masterKey r now data rt)"
proof -
  have semi: "CHR '';'' \<notin> set (toHex bs)" and eq: "CHR ''='' \<notin> set (toHex bs)" for bs
    by (rule sep_notin_toHex, simp add: is_hex_def)+
  have "demo_parse (demo_stringify (qr_package demo_lib masterKey r now data rt))
     = Some (qr_package demo_lib masterKey r now data rt)"
    unfolding qr_package_def Let_def
    by (rule demo_four_strings) (rule semi eq)+
  then show ?thesis by (simp add: demo_lib_def)
qed


lemma demo_payload_medicine:
  "qr_payload demo_rng 3 [(''medicineId'', JStr ''m1'')]
     = JObj [(''medicineId'', JStr ''m1''), (''nonce'', JStr ''6162636465666768696a6b6c6d6e6f70''),
             (''timestamp'', JNum 3)]"
  by (simp add: qr_payload_def demo_nonce)

lemma demo_payload_medicine_ok:
  "json_parse demo_lib (json_stringify demo_lib (qr_payload demo_rng 3 [(''medicineId'', JStr ''m1'')]))
     = Some (qr_payload demo_rng 3 [(''medicineId'', JStr ''m1'')])"
  unfolding demo_payload_medicine
  by (simp add: demo_lib_def demo_stringify_def demo_value_def demo_parse_def demo_field_def
      replicate_3)

text \<open>
  Claim C4, amended. With an authenticated cipher that inverts itself, a transport encoding
  that decodes what it encoded and a payload and package that JSON parses back from their
  text: \<open>verifyToken\<close> of the token \<open>generateSecureToken\<close> made returns the payload with
  \<^verbatim>\<open>nonce\<close> and \<^verbatim>\<open>timestamp\<close> set to the generated values; every other field of the
  input has its value. And whatever token is presented, data is returned only when the
  presented signature is the one recomputed over the presented IV, tag and ciphertext and
  the authenticated decryption accepts them.
\<close>

theorem verifyToken_generateSecureToken:
  assumes inv: "\<forall>k iv p. gcm_decrypt L k iv (snd (gcm_encrypt L k iv p)) (fst (gcm_encrypt L k iv p)) = Some p"
    and b64: "\<forall>s. base64url_decode L (base64url_encode L s) = s"
    and payload_ok: "json_parse L (json_stringify L (qr_payload r now data)) = Some (qr_payload r now data)"
    and package_ok: "json_parse L (json_stringify L (qr_package L masterKey r now data resourceType))
                       = Some (qr_package L masterKey r now data resourceType)"
  shows "verifyToken L masterKey (fst (generateSecureToken L masterKey r now data resourceType))
           resourceType = (Inr (qr_payload r now data), [])
       \<and> get_prop (qr_payload r now data) ''nonce'' = Some (JStr (toHex (fst (randomBytes 16 r))))
       \<and> get_prop (qr_payload r now data) ''timestamp'' = Some (JNum now)
       \<and> (\<forall>k. k \<noteq> ''nonce'' \<and> k \<noteq> ''timestamp'' \<longrightarrow>
             get_prop (qr_payload r now data) k = map_of data k)
       \<and> (\<forall>token data'.
             fst (verifyToken L masterKey token resourceType) = Inr data' \<longrightarrow>
             (\<exists>parsed ivB tagB encrypted sigB plaintext.
                json_parse L (base64url_decode L token) = Some parsed
              \<and> Buffer_from_hex L (get_prop parsed ''iv'') = Inr ivB
              \<and> Buffer_from_hex L (get_prop parsed ''tag'') = Inr tagB
              \<and> get_prop parsed ''encrypted'' = Some (JStr encrypted)
              \<and> Buffer_from_hex L (get_prop parsed ''signature'') = Inr sigB
              \<and> sigB = hmac_sha512 L (hmac_sha256 L masterKey (''QR_SIGN_'' @ resourceType))
                           (ivB @ tagB @ encrypted)
              \<and> gcm_decrypt L (hmac_sha256 L masterKey (''QR_TOKEN_'' @ resourceType)) ivB tagB
                    (fromHex encrypted) = Some plaintext
              \<and> json_parse L plaintext = Some data'))"
proof -
  have round: "verifyToken L masterKey
      (fst (generateSecureToken L masterKey r now data resourceType)) resourceType
        = (Inr (qr_payload r now data), [])"
    using verifyToken_try_package [OF inv b64 payload_ok package_ok]
    by (simp add: verifyToken_def)
  have nonce: "get_prop (qr_payload r now data) ''nonce''
                 = Some (JStr (toHex (fst (randomBytes 16 r))))"
    by (simp add: qr_payload_def map_of_set_prop)
  have stamp: "get_prop (qr_payload r now data) ''timestamp'' = Some (JNum now)"
    by (simp add: qr_payload_def map_of_set_prop)
  have others: "get_prop (qr_payload r now data) k = map_of data k"
    if "k \<noteq> ''nonce'' \<and> k \<noteq> ''timestamp''" for k
    using that by (simp add: qr_payload_def map_of_set_prop)
  have sound: "\<exists>parsed ivB tagB encrypted sigB plaintext.
                json_parse L (base64url_decode L token) = Some parsed
              \<and> Buffer_from_hex L (get_prop parsed ''iv'') = Inr ivB
              \<and> Buffer_from_hex L (get_prop parsed ''tag'') = Inr tagB
              \<and> get_prop parsed ''encrypted'' = Some (JStr encrypted)
              \<and> Buffer_from_hex L (get_prop parsed ''signature'') = Inr sigB
              \<and> sigB = hmac_sha512 L (hmac_sha256 L masterKey (''QR_SIGN_'' @ resourceType))
                           (ivB @ tagB @ encrypted)
              \<and> gcm_decrypt L (hmac_sha256 L masterKey (''QR_TOKEN_'' @ resourceType)) ivB tagB
                    (fromHex encrypted) = Some plaintext
              \<and> json_parse L plaintext = Some data'"
    if "fst (verifyToken L masterKey token resourceType) = Inr data'" for token data'
  proof -
    from that have "verifyToken_try L masterKey token resourceType = Inr data'"
      by (simp add: verifyToken_def split: sum.splits)
    then show ?thesis by (rule verifyToken_try_sound)
  qed
  from round nonce stamp others sound show ?thesis by blast
qed

theorem verifyToken_generateSecureToken_witness:
  "(\<forall>k iv p. gcm_decrypt demo_lib k iv (snd (gcm_encrypt demo_lib k iv p))
        (fst (gcm_encrypt demo_lib k iv p)) = Some p)
   \<and> (\<forall>s. base64url_decode demo_lib (base64url_encode demo_lib s) = s)
   \<and> json_parse demo_lib
        (json_stringify demo_lib (qr_payload demo_rng 3 [(''medicineId'', JStr ''m1'')]))
       = Some (qr_payload demo_rng 3 [(''medicineId'', JStr ''m1'')])
   \<and> json_parse demo_lib
        (json_stringify demo_lib
           (qr_package demo_lib demo_key demo_rng 3 [(''medicineId'', JStr ''m1'')] ''MEDICINE''))
       = Some (qr_package demo_lib demo_key demo_rng 3 [(''medicineId'', JStr ''m1'')] ''MEDICINE'')
   \<and> verifyToken demo_lib demo_key
        (fst (generateSecureToken demo_lib demo_key demo_rng 3 [(''medicineId'', JStr ''m1'')]
                ''MEDICINE''))
        ''MEDICINE''
       = (Inr (JObj [(''medicineId'', JStr ''m1''),
                     (''nonce'', JStr ''6162636465666768696a6b6c6d6e6f70''),
                     (''timestamp'', JNum 3)]), [])"
  using verifyToken_generateSecureToken
          [OF demo_gcm_inverts demo_base64url_inverts demo_payload_medicine_ok demo_package_ok]
    demo_gcm_inverts demo_base64url_inverts demo_payload_medicine_ok demo_package_ok
  by (simp add: demo_payload_medicine)

text \<open>
  Against claim C4 as stated: a payload that has a \<^verbatim>\<open>nonce\<close> field of its own comes back
  with the generated nonce in its place.
\<close>

theorem verifyToken_replaces_payload_nonce:
  "fst (verifyToken demo_lib demo_key
          (fst (generateSecureToken demo_lib demo_key demo_rng 3 [(''nonce'', JStr ''abc'')]
                  ''MEDICINE''))
          ''MEDICINE'')
     = Inr (JObj [(''nonce'', JStr ''6162636465666768696a6b6c6d6e6f70''),
                  (''timestamp'', JNum 3)])"
  using verifyToken_try_package
          [OF demo_gcm_inverts demo_base64url_inverts demo_payload_nonce_ok demo_package_ok]
  by (simp add: verifyToken_def demo_payload_nonce)

lemma demo_token:
  "fst (generateSecureToken demo_lib demo_key demo_rng 3 [(''medicineId'', JStr ''m1'')] ''MEDICINE'')
   = ''iv=S7172737475767778797a7b7c;tag=S7172737475767778797a7b7c51525f54;encrypted=S3b3131314e3d706d617473656d69743b3037663665366436633662366136393638363736363635363436333632363136533d65636e6f6e3b316d533d6449656e69636964656d;signature=S7172737475767778797a7b7c7172737475767778797a7b7c51525f54336233313331333134653364373036643631373437333635366436393734336233303337;''"
  by (simp add: generateSecureToken_def Let_def randomBytes_def demo_rng_def upt_rec
       demo_lib_def demo_key_def demo_pad_def demo_stringify_def demo_value_def hex_digit_def
       replicate_3 char_of_eq_iff)

lemma demo_token_mutated_parse:
  "demo_parse ''iv=S7172737475767778797A7b7c;tag=S7172737475767778797a7b7c51525f54;encrypted=S3b3131314e3d706d617473656d69743b3037663665366436633662366136393638363736363635363436333632363136533d65636e6f6e3b316d533d6449656e69636964656d;signature=S7172737475767778797a7b7c7172737475767778797a7b7c51525f54336233313331333134653364373036643631373437333635366436393734336233303337;''
  = Some (JObj [(''iv'', JStr ''7172737475767778797A7b7c''),
       (''tag'', JStr ''7172737475767778797a7b7c51525f54''),
       (''encrypted'', JStr ''3b3131314e3d706d617473656d69743b3037663665366436633662366136393638363736363635363436333632363136533d65636e6f6e3b316d533d6449656e69636964656d''),
       (''signature'', JStr ''7172737475767778797a7b7c7172737475767778797a7b7c51525f54336233313331333134653364373036643631373437333635366436393734336233303337'')])"
  by (simp add: demo_parse_def demo_field_def)

text \<open>
  A token is not refused for every changed character: hexadecimal digits are read in
  either case, so the token of the payload \<^verbatim>\<open>{medicineId: 'm1'}\<close> with one digit of its
  IV in upper case decodes to the same bytes and gives the same data.
\<close>

lemma verifyToken_accepts_other_hex_case:
  "verifyToken demo_lib demo_key
     ''iv=S7172737475767778797A7b7c;tag=S7172737475767778797a7b7c51525f54;encrypted=S3b3131314e3d706d617473656d69743b3037663665366436633662366136393638363736363635363436333632363136533d65636e6f6e3b316d533d6449656e69636964656d;signature=S7172737475767778797a7b7c7172737475767778797a7b7c51525f54336233313331333134653364373036643631373437333635366436393734336233303337;''
     ''MEDICINE''
   = (Inr (JObj [(''medicineId'', JStr ''m1''),
                 (''nonce'', JStr ''6162636465666768696a6b6c6d6e6f70''),
                 (''timestamp'', JNum 3)]), [])"
proof -
  have parsed: "json_parse demo_lib (base64url_decode demo_lib
     ''iv=S7172737475767778797A7b7c;tag=S7172737475767778797a7b7c51525f54;encrypted=S3b3131314e3d706d617473656d69743b3037663665366436633662366136393638363736363635363436333632363136533d65636e6f6e3b316d533d6449656e69636964656d;signature=S7172737475767778797a7b7c7172737475767778797a7b7c51525f54336233313331333134653364373036643631373437333635366436393734336233303337;'')
   = Some (JObj [(''iv'', JStr ''7172737475767778797A7b7c''),
       (''tag'', JStr ''7172737475767778797a7b7c51525f54''),
       (''encrypted'', JStr ''3b3131314e3d706d617473656d69743b3037663665366436633662366136393638363736363635363436333632363136533d65636e6f6e3b316d533d6449656e69636964656d''),
       (''signature'', JStr ''7172737475767778797a7b7c7172737475767778797a7b7c51525f54336233313331333134653364373036643631373437333635366436393734336233303337'')])"
    using demo_token_mutated_parse by (simp add: demo_lib_def)
  have iv: "fromHex ''7172737475767778797A7b7c'' = ''qrstuvwxyz{|''"
    by (simp add: hex_val_def char_of_eq_iff)
  have tag: "fromHex ''7172737475767778797a7b7c51525f54'' = ''qrstuvwxyz{|QR_T''"
    by (simp add: hex_val_def char_of_eq_iff)
  have enc: "fromHex ''3b3131314e3d706d617473656d69743b3037663665366436633662366136393638363736363635363436333632363136533d65636e6f6e3b316d533d6449656e69636964656d''
     = '';111N=pmatsemit;07f6e6d6c6b6a6968676665646362616S=ecnon;1mS=dIenicidem''"
    by (simp add: hex_val_def char_of_eq_iff)
  have sg: "fromHex ''7172737475767778797a7b7c7172737475767778797a7b7c51525f54336233313331333134653364373036643631373437333635366436393734336233303337''
     = ''qrstuvwxyz{|qrstuvwxyz{|QR_T3b3131314e3d706d617473656d69743b3037''"
    by (simp add: hex_val_def char_of_eq_iff)
  have "verifyToken_try demo_lib demo_key
     ''iv=S7172737475767778797A7b7c;tag=S7172737475767778797a7b7c51525f54;encrypted=S3b3131314e3d706d617473656d69743b3037663665366436633662366136393638363736363635363436333632363136533d65636e6f6e3b316d533d6449656e69636964656d;signature=S7172737475767778797a7b7c7172737475767778797a7b7c51525f54336233313331333134653364373036643631373437333635366436393734336233303337;''
     ''MEDICINE''
   = Inr (JObj [(''medicineId'', JStr ''m1''),
                 (''nonce'', JStr ''6162636465666768696a6b6c6d6e6f70''),
                 (''timestamp'', JNum 3)])"
    unfolding verifyToken_try_def Let_def parsed
    by (simp add: Buffer_from_hex_def iv tag enc sg fromHex_toHex timingSafeEqual_def
          del: fromHex.simps)
       (simp add: demo_lib_def demo_key_def demo_pad_def demo_parse_def demo_field_def
          replicate_3 iv tag enc sg del: fromHex.simps)
  then show ?thesis by (simp add: verifyToken_def)
qed

end
